theory Spec2Isabelle
  imports Main "HOL-Library.AList" "HOL-Library.Sublist"
begin

section \<open>Errors, promises and awaiting\<close>

text \<open>
  A thrown JavaScript value.  \<open>HttpError c m\<close> is an error object of the API client whose
  \<open>statusCode\<close> property is \<open>c\<close>; the other errors have no \<open>statusCode\<close>, so
  \<open>err.statusCode === 404\<close> is false for them.  \<open>TypeError p\<close> is what reading or writing
  property \<open>p\<close> of \<open>undefined\<close> throws.
\<close>

datatype error =
    TypeError string
  | HttpError int string
  | Failure string
  | NoRepositoriesFoundError

fun statusCode :: "error \<Rightarrow> int option" where
  "statusCode (HttpError c m) = Some c"
| "statusCode (TypeError p) = None"
| "statusCode (Failure m) = None"
| "statusCode NoRepositoriesFoundError = None"

text \<open>
  A promise that has run to settlement: the effects it performed, in order, and whether it
  was rejected (\<open>Inl\<close>) or fulfilled (\<open>Inr\<close>).  \<open>await p k\<close> is
  \<^verbatim>\<open>const x = await p; k(x)\<close> inside an async function: a rejection of \<open>p\<close> rejects
  the whole function and nothing of \<open>k\<close> runs.
\<close>

type_synonym ('e, 'a) promise = "'e list \<times> (error + 'a)"

definition resolve :: "'a \<Rightarrow> ('e, 'a) promise" where
  "resolve x = ([], Inr x)"

definition reject :: "error \<Rightarrow> ('e, 'a) promise" where
  "reject err = ([], Inl err)"

definition perform :: "'e \<Rightarrow> error + 'a \<Rightarrow> ('e, 'a) promise" where
  "perform ev r = ([ev], r)"

definition await :: "('e, 'a) promise \<Rightarrow> ('a \<Rightarrow> ('e, 'b) promise) \<Rightarrow> ('e, 'b) promise" where
  "await p k =
     (case p of
        (evs, Inl err) \<Rightarrow> (evs, Inl err)
      | (evs, Inr x) \<Rightarrow> (case k x of (evs', r) \<Rightarrow> (evs @ evs', r)))"

text \<open>
  \<^verbatim>\<open>try { p } catch (err) { handler(err) }\<close> inside an async function.
\<close>

definition tryCatch :: "('e, 'a) promise \<Rightarrow> (error \<Rightarrow> ('e, 'a) promise) \<Rightarrow> ('e, 'a) promise" where
  "tryCatch p handler =
     (case p of
        (evs, Inl err) \<Rightarrow> (case handler err of (evs', r) \<Rightarrow> (evs @ evs', r))
      | (evs, Inr x) \<Rightarrow> (evs, Inr x))"

text \<open>
  \<^verbatim>\<open>promisify(async.series)(tasks)\<close> of the async library: the tasks run one after the
  other, each started when the one before has called back; the first error ends the series
  and the tasks behind it are never started.
\<close>

fun series :: "('e, unit) promise list \<Rightarrow> ('e, unit) promise" where
  "series [] = resolve ()"
| "series (t # ts) = await t (\<lambda>_. series ts)"

text \<open>
  \<^verbatim>\<open>Promise.all(xs.map(f))\<close>: every call is started, so the effects of all of them
  happen; the result is rejected when one of them is.  Which rejection wins when several
  calls fail depends on timing; the model reports the first in list order.
\<close>

fun promiseAll :: "('e, 'a) promise list \<Rightarrow> ('e, 'a list) promise" where
  "promiseAll [] = ([], Inr [])"
| "promiseAll (p # ps) =
     (case promiseAll ps of
        (evs, rs) \<Rightarrow>
          (fst p @ evs,
           case snd p of
             Inl err \<Rightarrow> Inl err
           | Inr x \<Rightarrow> (case rs of Inl err \<Rightarrow> Inl err | Inr xs \<Rightarrow> Inr (x # xs))))"

section \<open>Data model\<close>

text \<open>A repository as the hosting API returns it (the fields \<open>createRepositoryEntity\<close> reads).\<close>

record raw =
  name :: string
  full_name :: string
  default_branch :: string

text \<open>The answer of \<open>api.getContents\<close>: the file's content (base64) and its blob hash.\<close>

record contents =
  content :: string
  sha :: string

text \<open>
  The decoded \<^verbatim>\<open>package.json\<close>: a plain JavaScript object.  A dependency map is an object
  from package names to version strings, kept as an association list in the order the object
  enumerates its keys (see \<open>setProperty\<close>); a map the manifest does not have is \<open>None\<close>
  (\<open>undefined\<close>).
\<close>

record manifest =
  name :: "string option"
  dependencies :: "(string \<times> string) list option"
  devDependencies :: "(string \<times> string) list option"

text \<open>
  Plain objects are held by reference.  The store maps a reference (an index) to the decoded
  manifest object it points to; \<open>JSON.parse\<close> allocates a new one.
\<close>

type_synonym ref = nat
type_synonym store = "manifest list"

definition deref :: "store \<Rightarrow> ref \<Rightarrow> manifest option" where
  "deref h r = (if r < length h then Some (h ! r) else None)"

definition alloc :: "store \<Rightarrow> manifest \<Rightarrow> ref \<times> store" where
  "alloc h m = (length h, h @ [m])"

record packageDefinition =
  decoded :: ref
  sha :: string

record dependencyRelationship =
  type :: string
  packageName :: string
  packageVersion :: string
  currentVersion :: string

record parsedPackage =
  name :: string
  version :: string

record pullRequest =
  body :: string
  title :: string

record lockfileEntity =
  packageManager :: string
  lockfileContent :: string

text \<open>
  The repository entity: an Immutable.js record, so \<open>repository.set(field, v)\<close> returns a
  new record and is a record update here.  The fields \<open>packageDefinition\<close>,
  \<open>dependencyRelationship\<close> and \<open>lockfileEntity\<close> are \<open>undefined\<close> (\<open>None\<close>) until a
  stage attaches them.
\<close>

record repositoryEntity =
  name :: string
  fullName :: string
  defaultBranch :: string
  packageDefinition :: "packageDefinition option"
  dependencyRelationship :: "dependencyRelationship option"
  lockfileEntity :: "lockfileEntity option"

text \<open>
  What an entity shows to a reader that follows its references: the entity with its decoded
  manifest looked up in the store.
\<close>

definition observed :: "store \<Rightarrow> repositoryEntity \<Rightarrow> repositoryEntity \<times> manifest option" where
  "observed h repository =
     (repository,
      case packageDefinition repository of
        None \<Rightarrow> None
      | Some pd \<Rightarrow> deref h (decoded pd))"

section \<open>The GitHub adapter\<close>

text \<open>
  The API client (\<^verbatim>\<open>./api\<close>) is a parameter: each operation answers with an error or a
  value.  \<open>getUserRepos\<close> and \<open>getOrgRepos\<close> answer with any JSON value; only whether it is
  an array matters to the adapter.  \<open>getRef\<close> answers with \<open>ref.object.sha\<close>.
\<close>

datatype json = Array "raw list" | NotAnArray

record api =
  getRepo :: "string \<Rightarrow> error + raw"
  getUserRepos :: "string \<Rightarrow> error + json"
  getOrgRepos :: "string \<Rightarrow> error + json"
  getContents :: "string \<Rightarrow> string \<Rightarrow> error + contents"
  getRef :: "string \<Rightarrow> string \<Rightarrow> error + string"
  createRef :: "string \<Rightarrow> string \<Rightarrow> string \<Rightarrow> error + unit"
  createContents :: "string \<Rightarrow> string \<Rightarrow> string \<Rightarrow> string \<Rightarrow> string \<Rightarrow> string \<Rightarrow> error + unit"
  createPull :: "string \<Rightarrow> string \<Rightarrow> string \<Rightarrow> string \<Rightarrow> string \<Rightarrow> error + unit"

text \<open>The effects of the adapter: the API calls it issues and what it writes to the console.\<close>

datatype call =
    GetRepo string
  | GetUserRepos string
  | GetOrgRepos string
  | GetContents string string
  | GetRef string string
  | CreateRef string string string
  | CreateContents string string string string string string
  | CreatePull string string string string string
  | ConsoleError error

definition createRepositoryEntity :: "raw \<Rightarrow> repositoryEntity" where
  "createRepositoryEntity r =
     \<lparr> name = raw.name r, fullName = full_name r, defaultBranch = default_branch r,
       packageDefinition = None, dependencyRelationship = None, lockfileEntity = None \<rparr>"

definition GitHub_fetchRepository :: "api \<Rightarrow> string \<Rightarrow> (call, raw) promise" where
  "GitHub_fetchRepository a nm = perform (GetRepo nm) (getRepo a nm)"

definition GitHub_fetchRepositories :: "api \<Rightarrow> string list \<Rightarrow> (call, repositoryEntity list) promise" where
  "GitHub_fetchRepositories a names =
     await (promiseAll (map (GitHub_fetchRepository a) names))
       (\<lambda>repositories. resolve (map createRepositoryEntity repositories))"

text \<open>
  \<open>ownerRepos.map\<close> of a value that is not an array throws a \<open>TypeError\<close>.
\<close>

definition GitHub_fetchRepositoriesByOwner :: "api \<Rightarrow> string \<Rightarrow> (call, repositoryEntity list) promise" where
  "GitHub_fetchRepositoriesByOwner a owner =
     await (perform (GetUserRepos owner) (getUserRepos a owner))
       (\<lambda>ownerRepos.
          await (if ownerRepos = NotAnArray \<or> ownerRepos = Array []
                 then perform (GetOrgRepos owner) (getOrgRepos a owner)
                 else resolve ownerRepos)
            (\<lambda>ownerRepos.
               case ownerRepos of
                 Array rs \<Rightarrow> resolve (map createRepositoryEntity rs)
               | NotAnArray \<Rightarrow> reject (TypeError ''map'')))"

text \<open>
  \<open>getPackageJson\<close>: fetch \<^verbatim>\<open>package.json\<close>, decode it from base64 and parse it.  The
  decoding and \<open>JSON.parse\<close> are the parameter \<open>parse\<close>; the parsed object is a new object of
  the store.
\<close>

definition GitHub_getPackageJson ::
  "api \<Rightarrow> (string \<Rightarrow> error + manifest) \<Rightarrow> repositoryEntity \<Rightarrow> store \<Rightarrow> (call, packageDefinition) promise \<times> store" where
  "GitHub_getPackageJson a parse repository h =
     (case getContents a (fullName repository) ''package.json'' of
        Inl err \<Rightarrow> (([GetContents (fullName repository) ''package.json''], Inl err), h)
      | Inr c \<Rightarrow>
          (case parse (content c) of
             Inl err \<Rightarrow> (([GetContents (fullName repository) ''package.json''], Inl err), h)
           | Inr m \<Rightarrow>
               (case alloc h m of
                  (r, h') \<Rightarrow>
                    (([GetContents (fullName repository) ''package.json''],
                      Inr \<lparr> decoded = r, sha = contents.sha c \<rparr>), h'))))"

text \<open>
  \<open>Promise.all\<close> over callbacks that allocate: as \<open>promiseAll\<close>, with the store passed along.
\<close>

fun mapAll ::
  "('a \<Rightarrow> store \<Rightarrow> ('e, 'b) promise \<times> store) \<Rightarrow> 'a list \<Rightarrow> store \<Rightarrow> ('e, 'b list) promise \<times> store" where
  "mapAll f [] h = (([], Inr []), h)"
| "mapAll f (x # xs) h =
     (case f x h of
        (p, h') \<Rightarrow>
          (case mapAll f xs h' of
             ((evs, rs), h'') \<Rightarrow>
               ((fst p @ evs,
                 case snd p of
                   Inl err \<Rightarrow> Inl err
                 | Inr y \<Rightarrow> (case rs of Inl err \<Rightarrow> Inl err | Inr ys \<Rightarrow> Inr (y # ys))), h'')))"

text \<open>
  \<open>fetchPackageDefinitions\<close> of the adapter with the owner lookup: the callback run for each
  repository, and the whole operation.
\<close>

definition GitHub_fetchPackageDefinition ::
  "api \<Rightarrow> (string \<Rightarrow> error + manifest) \<Rightarrow> repositoryEntity \<Rightarrow> store \<Rightarrow> (call, repositoryEntity) promise \<times> store" where
  "GitHub_fetchPackageDefinition a parse repository h =
     (case GitHub_getPackageJson a parse repository h of
        ((evs, Inr pd), h') \<Rightarrow> ((evs, Inr (repository\<lparr>packageDefinition := Some pd\<rparr>)), h')
      | ((evs, Inl err), h') \<Rightarrow>
          (if statusCode err = Some 404 then ((evs, Inr repository), h')
           else ((evs, Inl err), h')))"

definition GitHub_fetchPackageDefinitions ::
  "api \<Rightarrow> (string \<Rightarrow> error + manifest) \<Rightarrow> repositoryEntity list \<Rightarrow> store \<Rightarrow> (call, repositoryEntity list) promise \<times> store" where
  "GitHub_fetchPackageDefinitions a parse repositories h =
     mapAll (GitHub_fetchPackageDefinition a parse) repositories h"

text \<open>
  \<open>fetchPackageDefinitions\<close> as \<^verbatim>\<open>src/adapters/github/adapter.js\<close> has it: the callback
  has no \<open>try\<close> around \<open>getPackageJson\<close>.
\<close>

definition adapter_js_fetchPackageDefinition ::
  "api \<Rightarrow> (string \<Rightarrow> error + manifest) \<Rightarrow> repositoryEntity \<Rightarrow> store \<Rightarrow> (call, repositoryEntity) promise \<times> store" where
  "adapter_js_fetchPackageDefinition a parse repository h =
     (case GitHub_getPackageJson a parse repository h of
        ((evs, Inr pd), h') \<Rightarrow> ((evs, Inr (repository\<lparr>packageDefinition := Some pd\<rparr>)), h')
      | ((evs, Inl err), h') \<Rightarrow> ((evs, Inl err), h'))"

definition adapter_js_fetchPackageDefinitions ::
  "api \<Rightarrow> (string \<Rightarrow> error + manifest) \<Rightarrow> repositoryEntity list \<Rightarrow> store \<Rightarrow> (call, repositoryEntity list) promise \<times> store" where
  "adapter_js_fetchPackageDefinitions a parse repositories h =
     mapAll (adapter_js_fetchPackageDefinition a parse) repositories h"

definition GitHub_createBranch :: "api \<Rightarrow> repositoryEntity \<Rightarrow> string \<Rightarrow> (call, unit) promise" where
  "GitHub_createBranch a repository branchName =
     await (perform (GetRef (fullName repository) (defaultBranch repository))
              (getRef a (fullName repository) (defaultBranch repository)))
       (\<lambda>defaultBranchSha.
          perform (CreateRef (fullName repository) branchName defaultBranchSha)
            (createRef a (fullName repository) branchName defaultBranchSha))"

text \<open>
  The commit messages of \<open>commitPackageDefinition\<close>, built from the dependency relationship.
\<close>

definition commitMessage :: "dependencyRelationship \<Rightarrow> string \<Rightarrow> string" where
  "commitMessage rel file =
     ''[turnup] Auto update of '' @ type rel @ '' dependency '' @ packageName rel @ ''@''
       @ packageVersion rel @ '' - '' @ file"

definition writeFile :: "api \<Rightarrow> string \<Rightarrow> string \<Rightarrow> string \<Rightarrow> string \<Rightarrow> string \<Rightarrow> string \<Rightarrow> (call, unit) promise" where
  "writeFile a full branchName path currentSha text message =
     perform (CreateContents full branchName path currentSha text message)
       (createContents a full branchName path currentSha text message)"

text \<open>
  \<open>commitPackageDefinition\<close>.  Building the first queued write reads
  \<open>repository.packageDefinition.sha\<close> and then \<open>rel.type\<close>, each a \<open>TypeError\<close> when the
  object is \<open>undefined\<close>.  With a lockfile to write, the remote lockfile is probed first: a
  failure of the probe is written to the console, and rethrown unless its status code is 404.
\<close>

definition GitHub_commitPackageDefinition ::
  "api \<Rightarrow> repositoryEntity \<Rightarrow> string \<Rightarrow> string \<Rightarrow> string option \<Rightarrow> (call, unit) promise" where
  "GitHub_commitPackageDefinition a repository branchName formatted lockFile =
     (case packageDefinition repository of
        None \<Rightarrow> reject (TypeError ''sha'')
      | Some pd \<Rightarrow>
          (case dependencyRelationship repository of
             None \<Rightarrow> reject (TypeError ''type'')
           | Some rel \<Rightarrow>
               (let queued = [writeFile a (fullName repository) branchName ''package.json''
                                (sha pd) formatted (commitMessage rel ''package.json'')]
                in await
                     (case lockFile of
                        None \<Rightarrow> resolve queued
                      | Some lock \<Rightarrow>
                          tryCatch
                            (await (perform (GetContents (fullName repository) ''package-lock.json'')
                                      (getContents a (fullName repository) ''package-lock.json''))
                               (\<lambda>lockFileRemote.
                                  resolve (queued @
                                    [writeFile a (fullName repository) branchName ''package-lock.json''
                                       (contents.sha lockFileRemote) lock
                                       (commitMessage rel ''package-lock.json'')])))
                            (\<lambda>err.
                               await (perform (ConsoleError err) (Inr ()))
                                 (\<lambda>_. if statusCode err \<noteq> Some 404 then reject err
                                      else resolve queued)))
                     (\<lambda>queued. series queued))))"

definition pullRequestTitle :: "string \<Rightarrow> string" where
  "pullRequestTitle depString = ''Update Dependency - '' @ depString"

definition pullRequestBody :: "string \<Rightarrow> string" where
  "pullRequestBody depString =
     ''Update the package.json dependency for '' @ [CHR 0x60] @ depString @ [CHR 0x60]
       @ ''. This PR was automatically generated by the '' @ [CHR 0x60] @ ''turnup'' @ [CHR 0x60]
       @ '' [CLI](https://npmjs.com/turnup).'' @ [CHR 0x0A, CHR 0x0A]
       @ ''**Note**: formatting may have changed for package.json. It is processed using [format-package](https://www.npmjs.com/package/format-package).''"

definition GitHub_createPullRequest :: "api \<Rightarrow> repositoryEntity \<Rightarrow> string \<Rightarrow> (call, unit) promise" where
  "GitHub_createPullRequest a repository branchName =
     (case dependencyRelationship repository of
        None \<Rightarrow> reject (TypeError ''packageName'')
      | Some rel \<Rightarrow>
          (let depString = packageName rel @ ''@'' @ packageVersion rel
           in perform (CreatePull (fullName repository) (defaultBranch repository) branchName
                         (pullRequestTitle depString) (pullRequestBody depString))
                (createPull a (fullName repository) (defaultBranch repository) branchName
                   (pullRequestTitle depString) (pullRequestBody depString))))"

section \<open>The update actions\<close>

text \<open>
  The platform adapter as the actions use it: one answer per call.
  \<open>fetchPackageDefinitions\<close> parses manifests, so it takes and returns the store.
\<close>

record adapter =
  getName :: string
  fetchRepositories :: "string list \<Rightarrow> error + repositoryEntity list"
  fetchRepositoriesByOwner :: "string \<Rightarrow> error + repositoryEntity list"
  fetchPackageDefinitions :: "repositoryEntity list \<Rightarrow> store \<Rightarrow> (error + repositoryEntity list) \<times> store"
  fetchLockfileDefinition :: "repositoryEntity \<Rightarrow> error + lockfileEntity option"
  createBranch :: "repositoryEntity \<Rightarrow> string \<Rightarrow> error + unit"
  commitPackageDefinition :: "repositoryEntity \<Rightarrow> string \<Rightarrow> string \<Rightarrow> string option \<Rightarrow> string \<Rightarrow> error + unit"
  createPullRequest :: "repositoryEntity \<Rightarrow> string \<Rightarrow> pullRequest \<Rightarrow> error + unit"

text \<open>
  The class \<open>GitHub\<close> as an adapter.  It defines no \<open>fetchLockfileDefinition\<close>, which
  \<open>commitUpdates\<close> calls, so that operation is a parameter; its \<open>commitPackageDefinition\<close>
  and \<open>createPullRequest\<close> ignore the last argument the actions pass.
\<close>

definition GitHub ::
  "api \<Rightarrow> (string \<Rightarrow> error + manifest) \<Rightarrow> (repositoryEntity \<Rightarrow> error + lockfileEntity option) \<Rightarrow> adapter" where
  "GitHub a parse fetchLockfile =
     \<lparr> getName = ''GitHub'',
       fetchRepositories = (\<lambda>names. snd (GitHub_fetchRepositories a names)),
       fetchRepositoriesByOwner = (\<lambda>owner. snd (GitHub_fetchRepositoriesByOwner a owner)),
       fetchPackageDefinitions =
         (\<lambda>repositories h.
            case GitHub_fetchPackageDefinitions a parse repositories h of (p, h') \<Rightarrow> (snd p, h')),
       fetchLockfileDefinition = fetchLockfile,
       createBranch = (\<lambda>repository branchName. snd (GitHub_createBranch a repository branchName)),
       commitPackageDefinition =
         (\<lambda>repository branchName formatted lockFile message.
            snd (GitHub_commitPackageDefinition a repository branchName formatted lockFile)),
       createPullRequest =
         (\<lambda>repository branchName pr. snd (GitHub_createPullRequest a repository branchName)) \<rparr>"

text \<open>
  What the actions do to the outside: notices, calls of the adapter and of the other
  collaborators, the prompt (with the names of the choices it shows), and the report of a
  fatal error.
\<close>

datatype event =
    Notify string string
  | ParsePackage string
  | FetchRepositories "string list"
  | FetchRepositoriesByOwner string
  | FetchPackageDefinitions "repositoryEntity list"
  | FormatPackage manifest
  | FetchLockfileDefinition repositoryEntity
  | GenerateLockfile string string "string option"
  | CreateBranch repositoryEntity string
  | CommitPackageDefinition repositoryEntity string string "string option" string
  | CreatePullRequest repositoryEntity string pullRequest
  | Prompt "string list"
  | Fatal string error

text \<open>
  The collaborators outside the repository's files: the package parser, \<open>format-package\<close>,
  the two lockfile generators, and the operator at the checkbox prompt, who sees the names of
  the choices and ticks positions.
\<close>

record env =
  parsePackage :: "string \<Rightarrow> error + parsedPackage"
  formatPackage :: "manifest \<Rightarrow> error + string"
  lockfile_create :: "string \<Rightarrow> string \<Rightarrow> string option \<Rightarrow> error + string"
  lockfile_update :: "string \<Rightarrow> string \<Rightarrow> string option \<Rightarrow> error + string"
  operator :: "string list \<Rightarrow> nat \<Rightarrow> bool"

record options =
  repos :: "string list"
  owner :: "string option"
  noLockfile :: bool
  noPullRequest :: bool
  continue :: bool
  registry :: "string option"

definition ACTION :: string where
  "ACTION = ''turnup.update''"

definition ALL_ACTION :: string where
  "ALL_ACTION = ''turnup.update.all''"

definition notify :: "string \<Rightarrow> string \<Rightarrow> (event, unit) promise" where
  "notify action message = perform (Notify action message) (Inr ())"

text \<open>A thrown error rejects the async function around it.\<close>

definition throwing :: "error + 'a \<Rightarrow> ('e, 'a) promise" where
  "throwing r = ([], r)"

text \<open>
  The checkbox prompt answers with the values of the ticked choices, in the order shown.
\<close>

definition promptUserForRepos :: "env \<Rightarrow> (string \<times> repositoryEntity) list \<Rightarrow> (event, repositoryEntity list) promise" where
  "promptUserForRepos e choices =
     perform (Prompt (map fst choices))
       (Inr (map (\<lambda>(i, c). snd c)
               (filter (\<lambda>(i, c). operator e (map fst choices) i) (enumerate 0 choices))))"

definition getDepString :: "repositoryEntity \<Rightarrow> error + string" where
  "getDepString repo =
     (case dependencyRelationship repo of
        None \<Rightarrow> Inl (TypeError ''packageName'')
      | Some rel \<Rightarrow> Inr (packageName rel @ ''@'' @ packageVersion rel))"

definition getCommitMessage :: "repositoryEntity \<Rightarrow> string \<Rightarrow> error + string" where
  "getCommitMessage repo action =
     (if action = ACTION then
        (case dependencyRelationship repo of
           None \<Rightarrow> Inl (TypeError ''type'')
         | Some rel \<Rightarrow>
             (case getDepString repo of
                Inl err \<Rightarrow> Inl err
              | Inr dep \<Rightarrow> Inr (''[turnup] Auto update of '' @ type rel @ '' dependency '' @ dep)))
      else Inr ''[turnup] Auto update of package dependencies'')"

definition turnupNotice :: string where
  "turnupNotice =
     ''This PR was automatically generated by the '' @ [CHR 0x60] @ ''turnup'' @ [CHR 0x60]
       @ '' [CLI](https://npmjs.com/turnup).''"

definition disclaimer :: string where
  "disclaimer =
     ''**Note**: formatting may have changed for package.json. It is processed using [format-package](https://www.npmjs.com/package/format-package).''"

text \<open>
  \<open>getPullRequest(repo, action)\<close>; the action is \<open>None\<close> when the caller passes none
  (\<open>undefined\<close>).
\<close>

definition getPullRequest :: "repositoryEntity \<Rightarrow> string option \<Rightarrow> error + pullRequest" where
  "getPullRequest repo action =
     (if action = Some ACTION then
        (case getDepString repo of
           Inl err \<Rightarrow> Inl err
         | Inr depString \<Rightarrow>
             Inr \<lparr> body = ''Update the package.json dependency for '' @ [CHR 0x60] @ depString
                           @ [CHR 0x60] @ ''. '' @ turnupNotice @ [CHR 0x0A, CHR 0x0A] @ disclaimer,
                   title = ''Update Dependency - '' @ depString \<rparr>)
      else
        Inr \<lparr> body = ''Update the package.json dependencies within specified range. ''
                      @ turnupNotice @ [CHR 0x0A, CHR 0x0A] @ disclaimer,
              title = ''Update Dependencies'' \<rparr>)"

text \<open>
  \<open>commitUpdates\<close>.  \<open>packageDef\<close> is the manifest object as it is when the function is
  called: \<open>formatPackage(packageDef)\<close> is the first thing it does.
\<close>

definition commitUpdates ::
  "string \<Rightarrow> adapter \<Rightarrow> env \<Rightarrow> options \<Rightarrow> repositoryEntity \<Rightarrow> string \<Rightarrow> manifest
     \<Rightarrow> (string \<Rightarrow> string \<Rightarrow> string option \<Rightarrow> error + string) \<Rightarrow> (event, unit) promise" where
  "commitUpdates action adapter e options repository branchName packageDef create =
     await (perform (FormatPackage packageDef) (formatPackage e packageDef))
       (\<lambda>formattedPackageDef.
     await
       (if \<not> noLockfile options then
          await (notify action ''Generating lockfile.'')
            (\<lambda>_.
          await (perform (FetchLockfileDefinition repository) (fetchLockfileDefinition adapter repository))
            (\<lambda>currentLockFile.
               case currentLockFile of
                 None \<Rightarrow> resolve (repository, None)
               | Some lock \<Rightarrow>
                   await (perform (GenerateLockfile formattedPackageDef (packageManager lock) (registry options))
                            (create formattedPackageDef (packageManager lock) (registry options)))
                     (\<lambda>updatedLockFile.
                        resolve (repository\<lparr>lockfileEntity := Some lock\<rparr>, Some updatedLockFile))))
        else resolve (repository, None))
       (\<lambda>(repository, updatedLockFile).
     await (notify action ''Creating branch.'')
       (\<lambda>_.
     await (perform (CreateBranch repository branchName) (createBranch adapter repository branchName))
       (\<lambda>_.
     await (notify action ''Creating commit.'')
       (\<lambda>_.
     await (throwing (getCommitMessage repository action))
       (\<lambda>message.
     await (perform (CommitPackageDefinition repository branchName formattedPackageDef updatedLockFile message)
              (commitPackageDefinition adapter repository branchName formattedPackageDef updatedLockFile message))
       (\<lambda>_.
     if \<not> noPullRequest options then
       await (notify action ''Creating pull request.'')
         (\<lambda>_.
       await (throwing (getPullRequest repository None))
         (\<lambda>pr.
            perform (CreatePullRequest repository branchName pr)
              (createPullRequest adapter repository branchName pr)))
     else resolve ())))))))"

text \<open>
  The state an action runs in: the store of manifest objects, and the promises that were
  created and never awaited.  Nobody reads the outcome of such a promise; its effects happen
  at some time after it was created, in between those of whatever runs next.
\<close>

record world =
  objects :: store
  floating :: "(event, unit) promise list"

type_synonym 'a task = "world \<Rightarrow> (event, 'a) promise \<times> world"

definition awaitTask :: "'a task \<Rightarrow> ('a \<Rightarrow> 'b task) \<Rightarrow> 'b task" where
  "awaitTask t k w =
     (case t w of
        ((evs, Inl err), w') \<Rightarrow> ((evs, Inl err), w')
      | ((evs, Inr x), w') \<Rightarrow> (case k x w' of ((evs', r), w'') \<Rightarrow> ((evs @ evs', r), w'')))"

definition still :: "(event, 'a) promise \<Rightarrow> 'a task" where
  "still p w = (p, w)"

text \<open>
  \<^verbatim>\<open>promisify(async.series)(tasks)\<close> over tasks that change the state.  A task here is an
  async function: the async library takes the promise the function returns for the task, so
  the next task starts when that promise is fulfilled and the series ends when it is
  rejected.
\<close>

fun seriesTasks :: "unit task list \<Rightarrow> unit task" where
  "seriesTasks [] w = (resolve (), w)"
| "seriesTasks (t # ts) w = awaitTask t (\<lambda>_. seriesTasks ts) w"

text \<open>
  The order in which a JavaScript object enumerates its string keys: the array indices first,
  in ascending numeric order, then the other keys in the order they were created.  An array
  index is the canonical decimal numeral of an integer below \<open>2^32 - 1\<close>: \<open>7\<close> and \<open>10\<close>
  are, \<open>07\<close>, \<open>1.0\<close> and \<open>lodash\<close> are not.
\<close>

definition decimal :: "string \<Rightarrow> int" where
  "decimal k = foldl (\<lambda>n c. 10 * n + (of_char c - 48)) 0 k"

definition arrayIndex :: "string \<Rightarrow> int option" where
  "arrayIndex k =
     (if k \<noteq> [] \<and> list_all (\<lambda>c. c \<in> set ''0123456789'') k
         \<and> (if hd k = CHR ''0'' then k = ''0'' else True)
         \<and> decimal k < 4294967295
      then Some (decimal k) else None)"

definition precedes :: "int \<Rightarrow> string \<times> string \<Rightarrow> bool" where
  "precedes i kv = (case arrayIndex (fst kv) of None \<Rightarrow> False | Some j \<Rightarrow> j < i)"

text \<open>
  \<open>obj[key] = value\<close> on an object that is there: the value of an existing key is replaced
  and the key keeps its place; a new key that is an array index is placed among the array
  indices, by its number; any other new key is added at the end.
\<close>

definition setProperty :: "string \<Rightarrow> string \<Rightarrow> (string \<times> string) list \<Rightarrow> (string \<times> string) list" where
  "setProperty key v kvs =
     (case map_of kvs key of
        Some old \<Rightarrow> AList.update key v kvs
      | None \<Rightarrow>
          (case arrayIndex key of
             None \<Rightarrow> kvs @ [(key, v)]
           | Some i \<Rightarrow> takeWhile (precedes i) kvs @ (key, v) # dropWhile (precedes i) kvs))"

text \<open>
  \<open>obj[key] = value\<close> on a dependency map of the manifest: a \<open>TypeError\<close> when the map is
  \<open>undefined\<close>.
\<close>

definition assign :: "(string \<times> string) list option \<Rightarrow> string \<Rightarrow> string \<Rightarrow> error + (string \<times> string) list" where
  "assign obj key v =
     (case obj of
        None \<Rightarrow> Inl (TypeError key)
      | Some kvs \<Rightarrow> Inr (setProperty key v kvs))"

text \<open>
  \<open>updateRepository\<close>.  The decoded manifest is written in place, in the store; then
  \<open>commitUpdates\<close> is called and its promise is neither awaited nor returned, so the promise
  of \<open>updateRepository\<close> is fulfilled as soon as the call has been made.
\<close>

definition updateRepository ::
  "adapter \<Rightarrow> env \<Rightarrow> repositoryEntity \<Rightarrow> string \<Rightarrow> string \<Rightarrow> options \<Rightarrow> unit task" where
  "updateRepository adapter e repo package_name package_version options w =
     (let repository = repo;
          started = [Notify ACTION (''Updating '' @ fullName repository)];
          branchName = ''turnup/'' @ package_name @ ''@'' @ package_version
      in case packageDefinition repository of
           None \<Rightarrow> ((started, Inl (TypeError ''decoded'')), w)
         | Some pd \<Rightarrow>
             (case dependencyRelationship repository of
                None \<Rightarrow> ((started, Inl (TypeError ''type'')), w)
              | Some rel \<Rightarrow>
                  (case deref (objects w) (decoded pd) of
                     None \<Rightarrow> ((started, Inl (TypeError ''dependencies'')), w)
                   | Some packageDef \<Rightarrow>
                       (case (if type rel = ''dev''
                              then map_sum id (\<lambda>kvs. packageDef\<lparr>devDependencies := Some kvs\<rparr>)
                                     (assign (devDependencies packageDef) package_name package_version)
                              else map_sum id (\<lambda>kvs. packageDef\<lparr>dependencies := Some kvs\<rparr>)
                                     (assign (dependencies packageDef) package_name package_version)) of
                          Inl err \<Rightarrow> ((started, Inl err), w)
                        | Inr packageDef' \<Rightarrow>
                            ((started, Inr ()),
                             w\<lparr> objects := (objects w)[decoded pd := packageDef'],
                                floating := floating w @
                                  [commitUpdates ACTION adapter e options repository branchName
                                     packageDef' (lockfile_create e)] \<rparr>)))))"

definition updateRepositoryAll :: "adapter \<Rightarrow> env \<Rightarrow> repositoryEntity \<Rightarrow> options \<Rightarrow> unit task" where
  "updateRepositoryAll adapter e repository options w =
     (let started = [Notify ALL_ACTION (''Running npm update against '' @ fullName repository)];
          branchName = ''turnup/update-all''
      in case packageDefinition repository of
           None \<Rightarrow> ((started, Inl (TypeError ''decoded'')), w)
         | Some pd \<Rightarrow>
             (case deref (objects w) (decoded pd) of
                None \<Rightarrow> ((started, Inl (TypeError ''decoded'')), w)
              | Some packageDef \<Rightarrow>
                  ((started, Inr ()),
                   w\<lparr> floating := floating w @
                        [commitUpdates ALL_ACTION adapter e options repository branchName
                           packageDef (lockfile_update e)] \<rparr>)))"

text \<open>
  \<open>fetchRepositories\<close> of \<^verbatim>\<open>update.js\<close> (the adapter has an operation of the same
  name): gather by name list and by owner, then keep the first entity of each \<open>fullName\<close>.
  \<open>dedupe\<close> is the \<open>reduce\<close> at its end and \<open>keepFirst\<close> its reducer.
\<close>

definition keepFirst :: "repositoryEntity list \<Rightarrow> repositoryEntity \<Rightarrow> repositoryEntity list" where
  "keepFirst reduction v =
     (if find (\<lambda>repo. fullName repo = fullName v) reduction = None
      then reduction @ [v] else reduction)"

definition dedupe :: "repositoryEntity list \<Rightarrow> repositoryEntity list" where
  "dedupe repositories = foldl keepFirst [] repositories"

definition fetchRepositories_action :: "adapter \<Rightarrow> options \<Rightarrow> (event, repositoryEntity list) promise" where
  "fetchRepositories_action adapter options =
     await (if repos options \<noteq> []
            then perform (FetchRepositories (repos options)) (fetchRepositories adapter (repos options))
            else resolve [])
       (\<lambda>byName.
     await (case owner options of
              None \<Rightarrow> resolve byName
            | Some ownr \<Rightarrow>
                if ownr \<noteq> []
                then await (perform (FetchRepositoriesByOwner ownr) (fetchRepositoriesByOwner adapter ownr))
                       (\<lambda>byOwner. resolve (byName @ byOwner))
                else resolve byName)
       (\<lambda>repositories. resolve (dedupe repositories)))"

text \<open>
  \<open>pluralizeRepo\<close>; \<open>showNat\<close> is the decimal numeral of a size.
\<close>

fun showNat :: "nat \<Rightarrow> string" where
  "showNat n =
     (if n < 10 then [''0123456789'' ! n]
      else showNat (n div 10) @ [''0123456789'' ! (n mod 10)])"

declare showNat.simps [simp del]

definition pluralizeRepo :: "repositoryEntity list \<Rightarrow> string" where
  "pluralizeRepo repoList =
     showNat (length repoList) @ '' repositor'' @ (if length repoList = 1 then ''y'' else ''ies'')"

text \<open>
  Modelled from the spec: \<open>packages.filter.repositoriesByDependencyUpgrade\<close>, whose module
  (\<^verbatim>\<open>src/packages\<close>) is not among the files.  The spec (4.1): repositories lacking a
  \<open>packageDefinition\<close> are silently excluded; for each repository, inspect \<open>dependencies\<close>
  and \<open>devDependencies\<close> of the decoded manifest for the target name; if present and the
  currently-declared version differs from the target version, include the repository with
  \<open>dependencyRelationship\<close> populated (\<open>type\<close> is \<open>dev\<close> or \<open>prod\<close> depending on which map
  matched, \<open>currentVersion\<close> the previously-declared version); the output preserves input
  order.  \<open>outdated\<close> is the match of one map; \<open>dependencies\<close> is inspected first.
\<close>

definition outdated :: "(string \<times> string) list option \<Rightarrow> string \<Rightarrow> string \<Rightarrow> string option" where
  "outdated deps targetName targetVersion =
     (case deps of
        None \<Rightarrow> None
      | Some kvs \<Rightarrow>
          (case map_of kvs targetName of
             None \<Rightarrow> None
           | Some v \<Rightarrow> if v \<noteq> targetVersion then Some v else None))"

definition classify :: "store \<Rightarrow> repositoryEntity \<Rightarrow> string \<Rightarrow> string \<Rightarrow> repositoryEntity option" where
  "classify h repository targetName targetVersion =
     (case packageDefinition repository of
        None \<Rightarrow> None
      | Some pd \<Rightarrow>
          (case deref h (decoded pd) of
             None \<Rightarrow> None
           | Some m \<Rightarrow>
               (case outdated (dependencies m) targetName targetVersion of
                  Some v \<Rightarrow>
                    Some (repository\<lparr>dependencyRelationship :=
                            Some \<lparr> type = ''prod'', packageName = targetName,
                                   packageVersion = targetVersion, currentVersion = v \<rparr>\<rparr>)
                | None \<Rightarrow>
                    (case outdated (devDependencies m) targetName targetVersion of
                       Some v \<Rightarrow>
                         Some (repository\<lparr>dependencyRelationship :=
                                 Some \<lparr> type = ''dev'', packageName = targetName,
                                        packageVersion = targetVersion, currentVersion = v \<rparr>\<rparr>)
                     | None \<Rightarrow> None))))"

definition repositoriesByDependencyUpgrade ::
  "store \<Rightarrow> repositoryEntity list \<Rightarrow> string \<Rightarrow> string \<Rightarrow> repositoryEntity list" where
  "repositoriesByDependencyUpgrade h repositories targetName targetVersion =
     List.map_filter (\<lambda>repository. classify h repository targetName targetVersion) repositories"

text \<open>
  \<open>xs.map(f)\<close> with an \<open>f\<close> that may throw: the first throw ends the map.
\<close>

fun traverse :: "('a \<Rightarrow> error + 'b) \<Rightarrow> 'a list \<Rightarrow> error + 'b list" where
  "traverse f [] = Inr []"
| "traverse f (x # xs) =
     (case f x of
        Inl err \<Rightarrow> Inl err
      | Inr y \<Rightarrow> (case traverse f xs of Inl err \<Rightarrow> Inl err | Inr ys \<Rightarrow> Inr (y # ys)))"

text \<open>The choice \<open>update\<close> shows for a repository; an absent manifest name prints as \<open>undefined\<close>.\<close>

definition repoChoice :: "store \<Rightarrow> repositoryEntity \<Rightarrow> error + string \<times> repositoryEntity" where
  "repoChoice h repo =
     (case packageDefinition repo of
        None \<Rightarrow> Inl (TypeError ''decoded'')
      | Some pd \<Rightarrow>
          (case deref h (decoded pd) of
             None \<Rightarrow> Inl (TypeError ''name'')
           | Some m \<Rightarrow>
               (case dependencyRelationship repo of
                  None \<Rightarrow> Inl (TypeError ''type'')
                | Some rel \<Rightarrow>
                    Inr ((case manifest.name m of None \<Rightarrow> ''undefined'' | Some n \<Rightarrow> n)
                           @ '' ('' @ type rel @ '' dependency of '' @ currentVersion rel @ '')'',
                         repo))))"

text \<open>
  Modelled from the spec: \<open>fatal\<close> and the third argument of \<open>notify\<close>, whose modules
  (\<^verbatim>\<open>src/errors\<close>, \<^verbatim>\<open>src/logging\<close>) are not among the files.  The spec: a fatal error
  terminates the run; an empty classification is an informational exit.  So
  \<^verbatim>\<open>try { body } catch (err) { fatal(action, err) }\<close> reports the error and ends the run: a
  result \<open>Inl err\<close> of an action is a run ended by \<open>fatal(action, err)\<close>, and a call of
  \<open>fatal\<close> inside the body is a throw to this handler; \<open>notify\<close> with a third argument
  \<open>true\<close> ends the run without an error.
\<close>

definition tryFatal :: "string \<Rightarrow> unit task \<Rightarrow> unit task" where
  "tryFatal action tryBody w =
     (case tryBody w of
        ((evs, Inl err), w') \<Rightarrow> ((evs @ [Fatal action err], Inl err), w')
      | ((evs, Inr u), w') \<Rightarrow> ((evs, Inr u), w'))"

definition callFetchPackageDefinitions :: "adapter \<Rightarrow> repositoryEntity list \<Rightarrow> repositoryEntity list task" where
  "callFetchPackageDefinitions adapter repositories w =
     (case fetchPackageDefinitions adapter repositories (objects w) of
        (r, h') \<Rightarrow> (perform (FetchPackageDefinitions repositories) r, w\<lparr>objects := h'\<rparr>))"

definition update :: "string \<Rightarrow> adapter \<Rightarrow> env \<Rightarrow> options \<Rightarrow> unit task" where
  "update packageString adapter e options =
     awaitTask (still (notify ACTION (''Using adapter '' @ getName adapter @ ''.'')))
       (\<lambda>_. tryFatal ACTION
     (awaitTask (still (perform (ParsePackage packageString) (parsePackage e packageString)))
       (\<lambda>parsedPackage.
     awaitTask (still (fetchRepositories_action adapter options))
       (\<lambda>repositories.
     awaitTask (still (if repositories = [] then reject NoRepositoriesFoundError
                       else notify ACTION ''Found .''))
       (\<lambda>_.
     awaitTask (callFetchPackageDefinitions adapter repositories)
       (\<lambda>repositories.
     awaitTask (\<lambda>w. (resolve (repositoriesByDependencyUpgrade (objects w) repositories
                                 (parsedPackage.name parsedPackage) (version parsedPackage)), w))
       (\<lambda>repositories.
     if repositories = [] then still (notify ACTION ''No repositories require updating.'')
     else
     awaitTask (still (notify ACTION (''Found '' @ pluralizeRepo repositories @ '' out of date.'')))
       (\<lambda>_.
     awaitTask (if \<not> continue options
                then (\<lambda>w. (await (throwing (traverse (repoChoice (objects w)) repositories))
                                (promptUserForRepos e), w))
                else still (resolve repositories))
       (\<lambda>repositories.
     if repositories = [] then still (notify ACTION ''No selected repos.'')
     else
     awaitTask (still (notify ACTION (''Updating '' @ pluralizeRepo repositories @ '' with ''
                         @ parsedPackage.name parsedPackage @ ''@'' @ version parsedPackage)))
       (\<lambda>_.
     seriesTasks (map (\<lambda>repository.
                         updateRepository adapter e repository (parsedPackage.name parsedPackage)
                           (version parsedPackage) options)
                    repositories)))))))))))"

definition updateAll :: "adapter \<Rightarrow> env \<Rightarrow> options \<Rightarrow> unit task" where
  "updateAll adapter e options =
     awaitTask (still (notify ALL_ACTION (''Using adapter '' @ getName adapter @ ''.'')))
       (\<lambda>_. tryFatal ALL_ACTION
     (awaitTask (still (fetchRepositories_action adapter options))
       (\<lambda>repositoryList.
     awaitTask (still (if repositoryList = [] then reject NoRepositoriesFoundError
                       else notify ALL_ACTION (''Found '' @ pluralizeRepo repositoryList @ ''.'')))
       (\<lambda>_.
     awaitTask (callFetchPackageDefinitions adapter repositoryList)
       (\<lambda>repositoryList.
     awaitTask (if \<not> continue options
                then still (promptUserForRepos e (map (\<lambda>repo. (name repo, repo)) repositoryList))
                else still (resolve repositoryList))
       (\<lambda>repositoryList.
     seriesTasks (map (\<lambda>repository. updateRepositoryAll adapter e repository options)
                    repositoryList)))))))"

section \<open>Notions the statements use\<close>

text \<open>
  The entities found before deduplication, in discovery order: those of the name list, then
  those of the owner.
\<close>

definition discovered :: "adapter \<Rightarrow> options \<Rightarrow> repositoryEntity list" where
  "discovered adapter options =
     (if repos options \<noteq> []
      then (case fetchRepositories adapter (repos options) of Inr rs \<Rightarrow> rs | Inl err \<Rightarrow> [])
      else [])
     @ (case owner options of
          None \<Rightarrow> []
        | Some ownr \<Rightarrow>
            if ownr \<noteq> []
            then (case fetchRepositoriesByOwner adapter ownr of Inr rs \<Rightarrow> rs | Inl err \<Rightarrow> [])
            else [])"

text \<open>The version a dependency map declares for a package, if any.\<close>

definition declaredVersion :: "(string \<times> string) list option \<Rightarrow> string \<Rightarrow> string option" where
  "declaredVersion deps n = (case deps of None \<Rightarrow> None | Some kvs \<Rightarrow> map_of kvs n)"

text \<open>
  The steps of the publish pipeline after the manifest mutation, and the step an event
  belongs to (a notice belongs to none).  \<open>pipelineSteps\<close> is the order the spec gives: the
  lockfile step only without \<open>noLockfile\<close> (its generation only when a remote lockfile
  exists), the pull request only without \<open>noPullRequest\<close>.
\<close>

datatype step = Format | FetchLockfile | GenerateLock | Branch | Commit | PullRequest

fun stepOf :: "event \<Rightarrow> step option" where
  "stepOf (FormatPackage m) = Some Format"
| "stepOf (FetchLockfileDefinition r) = Some FetchLockfile"
| "stepOf (GenerateLockfile f pm reg) = Some GenerateLock"
| "stepOf (CreateBranch r b) = Some Branch"
| "stepOf (CommitPackageDefinition r b f l m) = Some Commit"
| "stepOf (CreatePullRequest r b pr) = Some PullRequest"
| "stepOf ev = None"

definition steps :: "event list \<Rightarrow> step list" where
  "steps evs = List.map_filter stepOf evs"

definition pipelineSteps :: "options \<Rightarrow> bool \<Rightarrow> step list" where
  "pipelineSteps options remoteLockfile =
     [Format]
     @ (if noLockfile options then []
        else FetchLockfile # (if remoteLockfile then [GenerateLock] else []))
     @ [Branch, Commit]
     @ (if noPullRequest options then [] else [PullRequest])"

definition hasRemoteLockfile :: "adapter \<Rightarrow> repositoryEntity \<Rightarrow> bool" where
  "hasRemoteLockfile adapter repository =
     (case fetchLockfileDefinition adapter repository of
        Inr (Some lock) \<Rightarrow> True
      | Inr None \<Rightarrow> False
      | Inl err \<Rightarrow> False)"

text \<open>
  A promise conforms to a list of steps when the steps it performed are a prefix of the list,
  and the whole list when it was fulfilled.
\<close>

definition conforms :: "(event, 'a) promise \<Rightarrow> step list \<Rightarrow> bool" where
  "conforms p ss =
     (prefix (steps (fst p)) ss \<and> (case snd p of Inl err \<Rightarrow> True | Inr x \<Rightarrow> steps (fst p) = ss))"

text \<open>
  The spec's account of a pipeline run, to compare \<open>commitUpdates\<close> with.  A plan lists the
  calls to make, in order, each with the answer it gets; an entry without an event is a
  computation that can throw and has no effect of its own (composing the commit message and
  the pull request).  Running a plan makes the calls one after the other and stops at the
  first that fails, with its error; nothing after it is made.
\<close>

type_synonym plan = "(event option \<times> (error + unit)) list"

fun runPlan :: "plan \<Rightarrow> (event, unit) promise" where
  "runPlan [] = ([], Inr ())"
| "runPlan ((ev, answer) # rest) =
     (case answer of
        Inl err \<Rightarrow> (case ev of None \<Rightarrow> [] | Some x \<Rightarrow> [x], Inl err)
      | Inr u \<Rightarrow>
          ((case ev of None \<Rightarrow> [] | Some x \<Rightarrow> [x]) @ fst (runPlan rest), snd (runPlan rest)))"

definition answered :: "error + 'a \<Rightarrow> error + unit" where
  "answered r = (case r of Inl err \<Rightarrow> Inl err | Inr x \<Rightarrow> Inr ())"

definition plannedSteps :: "plan \<Rightarrow> step list" where
  "plannedSteps p = steps (List.map_filter fst p)"

text \<open>
  The plan of the publish pipeline, as the spec orders it: format the manifest; unless
  \<open>noLockfile\<close>, fetch the lockfile entity and, when there is one, generate the lockfile from
  the formatted manifest; create the branch; commit the formatted manifest and the generated
  lockfile; unless \<open>noPullRequest\<close>, open the pull request.  From the lockfile step on the
  calls are made for the \<open>target\<close>: the repository, with the lockfile entity attached when
  one was fetched.
\<close>

definition pipelinePlan ::
  "string \<Rightarrow> adapter \<Rightarrow> env \<Rightarrow> options \<Rightarrow> repositoryEntity \<Rightarrow> string \<Rightarrow> manifest
     \<Rightarrow> (string \<Rightarrow> string \<Rightarrow> string option \<Rightarrow> error + string) \<Rightarrow> plan" where
  "pipelinePlan action adapter e options repository branchName packageDef create =
     (let formatted = (case formatPackage e packageDef of Inr f \<Rightarrow> f | Inl err \<Rightarrow> []);
          remote = (if noLockfile options then None
                    else (case fetchLockfileDefinition adapter repository of
                            Inr (Some lock) \<Rightarrow> Some lock
                          | Inr None \<Rightarrow> None
                          | Inl err \<Rightarrow> None));
          target = (case remote of
                      None \<Rightarrow> repository
                    | Some lock \<Rightarrow> repository\<lparr>lockfileEntity := Some lock\<rparr>);
          lockFile = (case remote of
                        None \<Rightarrow> None
                      | Some lock \<Rightarrow>
                          (case create formatted (packageManager lock) (registry options) of
                             Inr generated \<Rightarrow> Some generated
                           | Inl err \<Rightarrow> None));
          message = (case getCommitMessage target action of Inr text \<Rightarrow> text | Inl err \<Rightarrow> []);
          pr = (case getPullRequest target None of
                  Inr request \<Rightarrow> request
                | Inl err \<Rightarrow> \<lparr> body = [], title = [] \<rparr>)
      in [(Some (FormatPackage packageDef), answered (formatPackage e packageDef))]
         @ (if noLockfile options then []
            else [(Some (Notify action ''Generating lockfile.''), Inr ()),
                  (Some (FetchLockfileDefinition repository),
                   answered (fetchLockfileDefinition adapter repository))]
                 @ (case remote of
                      None \<Rightarrow> []
                    | Some lock \<Rightarrow>
                        [(Some (GenerateLockfile formatted (packageManager lock) (registry options)),
                          answered (create formatted (packageManager lock) (registry options)))]))
         @ [(Some (Notify action ''Creating branch.''), Inr ()),
            (Some (CreateBranch target branchName), createBranch adapter target branchName),
            (Some (Notify action ''Creating commit.''), Inr ()),
            (None, answered (getCommitMessage target action)),
            (Some (CommitPackageDefinition target branchName formatted lockFile message),
             commitPackageDefinition adapter target branchName formatted lockFile message)]
         @ (if noPullRequest options then []
            else [(Some (Notify action ''Creating pull request.''), Inr ()),
                  (None, answered (getPullRequest target None)),
                  (Some (CreatePullRequest target branchName pr),
                   createPullRequest adapter target branchName pr)]))"

definition rejected :: "(event, unit) promise \<Rightarrow> bool" where
  "rejected q = (case snd q of Inl err \<Rightarrow> True | Inr u \<Rightarrow> False)"

definition notices :: "event list \<Rightarrow> string list" where
  "notices evs = List.map_filter (\<lambda>ev. case ev of Notify action message \<Rightarrow> Some message | _ \<Rightarrow> None) evs"

definition branchesCreated :: "(event, unit) promise \<Rightarrow> (string \<times> string) list" where
  "branchesCreated p =
     List.map_filter (\<lambda>ev. case ev of CreateBranch r b \<Rightarrow> Some (fullName r, b) | _ \<Rightarrow> None) (fst p)"

section \<open>Example inputs\<close>

text \<open>
  An API client over three repositories \<open>acme/a\<close>, \<open>acme/b\<close>, \<open>acme/c\<close> asked for by name and
  an organisation \<open>acme\<close> with \<open>acme/b\<close> and \<open>acme/d\<close>.  \<open>noManifest\<close> names a repository
  without \<^verbatim>\<open>package.json\<close>; \<open>brokenRef\<close> names one whose branch lookup fails with status 500.
  No repository has a \<^verbatim>\<open>package-lock.json\<close>.
\<close>

definition demoRaw :: "string \<Rightarrow> raw" where
  "demoRaw full = \<lparr> raw.name = drop 5 full, full_name = full, default_branch = ''main'' \<rparr>"

definition demoApi :: "string \<Rightarrow> string \<Rightarrow> api" where
  "demoApi noManifest brokenRef =
     \<lparr> getRepo = (\<lambda>full. Inr (demoRaw full)),
       getUserRepos = (\<lambda>ownr. Inr (Array [])),
       getOrgRepos = (\<lambda>ownr. Inr (Array [demoRaw (ownr @ ''/b''), demoRaw (ownr @ ''/d'')])),
       getContents = (\<lambda>full path.
          if path = ''package.json'' \<and> full \<noteq> noManifest
          then Inr \<lparr> content = full, contents.sha = ''blob-'' @ full \<rparr>
          else Inl (HttpError 404 ''Not Found'')),
       getRef = (\<lambda>full branch.
          if full = brokenRef then Inl (HttpError 500 ''Server Error'') else Inr ''head''),
       createRef = (\<lambda>full branch s. Inr ()),
       createContents = (\<lambda>full branch path s text message. Inr ()),
       createPull = (\<lambda>full base branch t b. Inr ()) \<rparr>"

definition demoParse :: "string \<Rightarrow> error + manifest" where
  "demoParse text =
     Inr \<lparr> manifest.name = Some text, dependencies = Some [(''lodash'', ''4.17.0'')],
           devDependencies = None \<rparr>"

definition demoEnv :: env where
  "demoEnv =
     \<lparr> parsePackage = (\<lambda>s. Inr \<lparr> parsedPackage.name = takeWhile (\<lambda>c. c \<noteq> CHR ''@'') s,
                                 version = tl (dropWhile (\<lambda>c. c \<noteq> CHR ''@'') s) \<rparr>),
       formatPackage = (\<lambda>m. Inr (concat (map (\<lambda>(k, v). k @ ''@'' @ v)
                                    (case dependencies m of None \<Rightarrow> [] | Some kvs \<Rightarrow> kvs)))),
       lockfile_create = (\<lambda>formatted pm reg. Inr (pm @ '':'' @ formatted)),
       lockfile_update = (\<lambda>formatted pm reg. Inr (pm @ '':'' @ formatted)),
       operator = (\<lambda>names i. True) \<rparr>"

definition demoOptions :: options where
  "demoOptions =
     \<lparr> repos = [''acme/a'', ''acme/b'', ''acme/c''], owner = None, noLockfile = False,
       noPullRequest = False, continue = True, registry = None \<rparr>"

definition emptyWorld :: world where
  "emptyWorld = \<lparr> objects = [], floating = [] \<rparr>"

definition noLockfiles :: "repositoryEntity \<Rightarrow> error + lockfileEntity option" where
  "noLockfiles repository = Inr None"

definition npmLockfiles :: "repositoryEntity \<Rightarrow> error + lockfileEntity option" where
  "npmLockfiles repository = Inr (Some \<lparr> packageManager = ''npm'', lockfileContent = ''{}'' \<rparr>)"

text \<open>
  The scenario of the spec: the target is \<open>lodash@4.17.21\<close>; repository A declares
  \<open>dependencies.lodash = 4.17.0\<close>, repository B has no \<open>lodash\<close> entry.
\<close>

definition scenarioStore :: store where
  "scenarioStore =
     [\<lparr> manifest.name = Some ''a'', dependencies = Some [(''lodash'', ''4.17.0'')],
        devDependencies = Some [(''mocha'', ''5.0.0'')] \<rparr>,
      \<lparr> manifest.name = Some ''b'', dependencies = Some [(''express'', ''4.16.0'')],
        devDependencies = None \<rparr>]"

definition scenarioA :: repositoryEntity where
  "scenarioA =
     (createRepositoryEntity (demoRaw ''acme/a''))
       \<lparr>packageDefinition := Some \<lparr> decoded = 0, sha = ''blob-acme/a'' \<rparr>\<rparr>"

definition scenarioB :: repositoryEntity where
  "scenarioB =
     (createRepositoryEntity (demoRaw ''acme/b''))
       \<lparr>packageDefinition := Some \<lparr> decoded = 1, sha = ''blob-acme/b'' \<rparr>\<rparr>"

definition lodashUpgrade :: dependencyRelationship where
  "lodashUpgrade =
     \<lparr> type = ''prod'', packageName = ''lodash'', packageVersion = ''4.17.21'',
       currentVersion = ''4.17.0'' \<rparr>"

definition classifiedA :: repositoryEntity where
  "classifiedA = scenarioA\<lparr>dependencyRelationship := Some lodashUpgrade\<rparr>"

definition scenarioWorld :: world where
  "scenarioWorld = \<lparr> objects = scenarioStore, floating = [] \<rparr>"

text \<open>The manifest of repository A once \<open>lodash\<close> is set to the target version.\<close>

definition upgradedA :: manifest where
  "upgradedA =
     \<lparr> manifest.name = Some ''a'', dependencies = Some [(''lodash'', ''4.17.21'')],
       devDependencies = Some [(''mocha'', ''5.0.0'')] \<rparr>"

text \<open>
  A development dependency of repository A to upgrade, \<open>mocha@5.2.0\<close>, and the manifest of A
  once it is set.
\<close>

definition mochaUpgrade :: dependencyRelationship where
  "mochaUpgrade =
     \<lparr> type = ''dev'', packageName = ''mocha'', packageVersion = ''5.2.0'',
       currentVersion = ''5.0.0'' \<rparr>"

definition classifiedDevA :: repositoryEntity where
  "classifiedDevA = scenarioA\<lparr>dependencyRelationship := Some mochaUpgrade\<rparr>"

definition upgradedDevA :: manifest where
  "upgradedDevA =
     \<lparr> manifest.name = Some ''a'', dependencies = Some [(''lodash'', ''4.17.0'')],
       devDependencies = Some [(''mocha'', ''5.2.0'')] \<rparr>"

text \<open>The options with the lockfile step and the pull request switched off.\<close>

definition quietOptions :: options where
  "quietOptions = demoOptions\<lparr> noLockfile := True, noPullRequest := True \<rparr>"

section \<open>Awaiting: basic facts\<close>

lemma await_simps:
  "await (evs, Inl err) k = (evs, Inl err)"
  "await (evs, Inr x) k = (evs @ fst (k x), snd (k x))"
  by (simp_all add: await_def split: prod.splits)

lemma fst_await:
  "fst (await p k) = fst p @ (case snd p of Inl err \<Rightarrow> [] | Inr x \<Rightarrow> fst (k x))"
  by (cases p; cases "snd p") (auto simp: await_def split: prod.splits)

lemma snd_await:
  "snd (await p k) = (case snd p of Inl err \<Rightarrow> Inl err | Inr x \<Rightarrow> snd (k x))"
  by (cases p; cases "snd p") (auto simp: await_def split: prod.splits)

lemma series_single: "series [t] = t"
  by (cases t; cases "snd t") (auto simp: await_def resolve_def)

lemma awaitTask_E:
  assumes "awaitTask t k w = (p, w')"
  obtains (stopped) evs err where "t w = ((evs, Inl err), w')"
        | (continued) evs x w1 p' where "t w = ((evs, Inr x), w1)" "k x w1 = (p', w')"
proof (cases "t w")
  case (Pair q w1)
  show ?thesis
  proof (cases "snd q")
    case (Inl err)
    then have "t w = ((fst q, Inl err), w')"
      using assms Pair by (cases q) (simp add: awaitTask_def)
    then show ?thesis by (rule stopped)
  next
    case (Inr x)
    then have 1: "t w = ((fst q, Inr x), w1)" using Pair by (cases q) simp
    obtain p' w2 where 2: "k x w1 = (p', w2)" by (cases "k x w1")
    have "w2 = w'" using assms 1 2 by (cases p') (simp add: awaitTask_def)
    then show ?thesis using continued[OF 1] 2 by simp
  qed
qed

lemma tryFatal_world: "tryFatal action tryBody w = (p, w') \<Longrightarrow> \<exists>p'. tryBody w = (p', w')"
  by (auto simp: tryFatal_def split: prod.splits sum.splits)

section \<open>Resolving repositories by owner\<close>

text \<open>
  C6.  \<open>fetchRepositoriesByOwner\<close> always starts with the user query; its calls are the user
  query alone or the user query followed by the organization query; the organization is
  queried exactly when the user query answered with a value that is not an array or with an
  empty array; a non-empty user array is the result used, otherwise the organization's answer
  is (an answer that is not an array makes \<open>ownerRepos.map\<close> throw); and when the user query
  itself fails, its error is the result and the organization is not queried.
\<close>

theorem fetchRepositoriesByOwner_user_then_org:
  "(\<exists>rest. fst (GitHub_fetchRepositoriesByOwner a ownr) = GetUserRepos ownr # rest)
   \<and> (fst (GitHub_fetchRepositoriesByOwner a ownr) = [GetUserRepos ownr]
        \<or> fst (GitHub_fetchRepositoriesByOwner a ownr) = [GetUserRepos ownr, GetOrgRepos ownr])
   \<and> (GetOrgRepos ownr \<in> set (fst (GitHub_fetchRepositoriesByOwner a ownr))
        \<longleftrightarrow> getUserRepos a ownr = Inr NotAnArray \<or> getUserRepos a ownr = Inr (Array []))
   \<and> (\<forall>rs. getUserRepos a ownr = Inr (Array rs) \<and> rs \<noteq> []
        \<longrightarrow> snd (GitHub_fetchRepositoriesByOwner a ownr) = Inr (map createRepositoryEntity rs))
   \<and> (getUserRepos a ownr = Inr NotAnArray \<or> getUserRepos a ownr = Inr (Array [])
        \<longrightarrow> snd (GitHub_fetchRepositoriesByOwner a ownr) =
              (case getOrgRepos a ownr of
                 Inl err \<Rightarrow> Inl err
               | Inr (Array rs) \<Rightarrow> Inr (map createRepositoryEntity rs)
               | Inr NotAnArray \<Rightarrow> Inl (TypeError ''map'')))
   \<and> (\<forall>err. getUserRepos a ownr = Inl err
        \<longrightarrow> snd (GitHub_fetchRepositoriesByOwner a ownr) = Inl err)"
  by (cases "getUserRepos a ownr"; cases "getOrgRepos a ownr")
     (auto simp: GitHub_fetchRepositoriesByOwner_def await_simps perform_def resolve_def reject_def
           split: json.splits)

theorem fetchRepositoriesByOwner_witness:
  "getUserRepos (demoApi [] []) ''acme'' = Inr (Array [])
   \<and> fst (GitHub_fetchRepositoriesByOwner (demoApi [] []) ''acme'')
       = [GetUserRepos ''acme'', GetOrgRepos ''acme'']
   \<and> snd (GitHub_fetchRepositoriesByOwner (demoApi [] []) ''acme'')
       = Inr [createRepositoryEntity (demoRaw ''acme/b''), createRepositoryEntity (demoRaw ''acme/d'')]"
proof -
  note inst = fetchRepositoriesByOwner_user_then_org[of "demoApi [] []" "''acme''"]
  have u: "getUserRepos (demoApi [] []) ''acme'' = Inr (Array [])"
    by (simp add: demoApi_def)
  have org: "getOrgRepos (demoApi [] []) ''acme'' = Inr (Array [demoRaw ''acme/b'', demoRaw ''acme/d''])"
    by (simp add: demoApi_def)
  from inst u have queried: "GetOrgRepos ''acme'' \<in> set (fst (GitHub_fetchRepositoriesByOwner (demoApi [] []) ''acme''))"
    by blast
  from inst queried have calls: "fst (GitHub_fetchRepositoriesByOwner (demoApi [] []) ''acme'')
      = [GetUserRepos ''acme'', GetOrgRepos ''acme'']"
    by auto
  from inst u have "snd (GitHub_fetchRepositoriesByOwner (demoApi [] []) ''acme'') =
              (case getOrgRepos (demoApi [] []) ''acme'' of
                 Inl err \<Rightarrow> Inl err
               | Inr (Array rs) \<Rightarrow> Inr (map createRepositoryEntity rs)
               | Inr NotAnArray \<Rightarrow> Inl (TypeError ''map''))"
    by blast
  then have "snd (GitHub_fetchRepositoriesByOwner (demoApi [] []) ''acme'')
       = Inr [createRepositoryEntity (demoRaw ''acme/b''), createRepositoryEntity (demoRaw ''acme/d'')]"
    by (simp add: org)
  then show ?thesis using u calls by simp
qed

section \<open>The lockfile probe of the commit\<close>

text \<open>
  C4.  In \<open>commitPackageDefinition\<close> (the same code in both adapter files), with a lockfile
  to write and a repository that carries its manifest and its dependency relationship: when
  the probe for the remote \<^verbatim>\<open>package-lock.json\<close> fails with status code 404, the error is
  written to the console and not raised, the only file written is \<^verbatim>\<open>package.json\<close>, and
  the commit ends as that one write ends; when the probe fails with any other error, the error
  is written to the console and raised, and nothing is written.
\<close>

theorem commitPackageDefinition_lockfile_probe:
  assumes "packageDefinition repository = Some pd"
      and "dependencyRelationship repository = Some rel"
      and "getContents a (fullName repository) ''package-lock.json'' = Inl err"
  shows "(statusCode err = Some 404 \<longrightarrow>
            GitHub_commitPackageDefinition a repository branchName formatted (Some lock) =
              ([GetContents (fullName repository) ''package-lock.json'',
                ConsoleError err,
                CreateContents (fullName repository) branchName ''package.json'' (sha pd) formatted
                  (commitMessage rel ''package.json'')],
               createContents a (fullName repository) branchName ''package.json'' (sha pd) formatted
                 (commitMessage rel ''package.json'')))
       \<and> (statusCode err \<noteq> Some 404 \<longrightarrow>
            GitHub_commitPackageDefinition a repository branchName formatted (Some lock) =
              ([GetContents (fullName repository) ''package-lock.json'', ConsoleError err], Inl err))"
  using assms
  by (auto simp: GitHub_commitPackageDefinition_def await_simps tryCatch_def perform_def resolve_def
        reject_def writeFile_def Let_def series_single simp del: series.simps split: sum.splits)

theorem commitPackageDefinition_lockfile_probe_witness:
  "packageDefinition classifiedA = Some \<lparr> decoded = 0, sha = ''blob-acme/a'' \<rparr>
   \<and> dependencyRelationship classifiedA = Some lodashUpgrade
   \<and> getContents (demoApi [] []) (fullName classifiedA) ''package-lock.json''
       = Inl (HttpError 404 ''Not Found'')
   \<and> GitHub_commitPackageDefinition (demoApi [] []) classifiedA ''turnup/lodash@4.17.21''
        ''lodash@4.17.21'' (Some ''npm:lodash@4.17.21'')
       = ([GetContents ''acme/a'' ''package-lock.json'',
           ConsoleError (HttpError 404 ''Not Found''),
           CreateContents ''acme/a'' ''turnup/lodash@4.17.21'' ''package.json'' ''blob-acme/a''
             ''lodash@4.17.21'' ''[turnup] Auto update of prod dependency lodash@4.17.21 - package.json''],
          Inr ())"
proof -
  have 1: "packageDefinition classifiedA = Some \<lparr> decoded = 0, sha = ''blob-acme/a'' \<rparr>"
    by (simp add: classifiedA_def scenarioA_def)
  have 2: "dependencyRelationship classifiedA = Some lodashUpgrade"
    by (simp add: classifiedA_def)
  have 3: "getContents (demoApi [] []) (fullName classifiedA) ''package-lock.json''
             = Inl (HttpError 404 ''Not Found'')"
    by (simp add: demoApi_def)
  show ?thesis
    using 1 2 3
      commitPackageDefinition_lockfile_probe[OF 1 2 3, of "''turnup/lodash@4.17.21''"
        "''lodash@4.17.21''" "''npm:lodash@4.17.21''"]
    by (simp add: demoApi_def classifiedA_def scenarioA_def createRepositoryEntity_def demoRaw_def
          commitMessage_def lodashUpgrade_def)
qed

section \<open>Gathering and deduplication\<close>

lemma keepFirst_distinct:
  "distinct (map fullName acc) \<Longrightarrow> distinct (map fullName (foldl keepFirst acc xs))"
proof (induction xs arbitrary: acc)
  case Nil
  then show ?case by simp
next
  case (Cons x xs)
  have "distinct (map fullName (keepFirst acc x))"
    using Cons.prems by (auto simp: keepFirst_def find_None_iff)
  then show ?case using Cons.IH by simp
qed

lemma keepFirst_subseq:
  "\<exists>ys. foldl keepFirst acc xs = acc @ ys \<and> subseq ys xs"
proof (induction xs arbitrary: acc)
  case Nil
  then show ?case by simp
next
  case (Cons x xs)
  obtain ys where ys: "foldl keepFirst (keepFirst acc x) xs = keepFirst acc x @ ys" "subseq ys xs"
    using Cons.IH by blast
  show ?case
  proof (cases "find (\<lambda>repo. fullName repo = fullName x) acc = None")
    case True
    then have "foldl keepFirst acc (x # xs) = acc @ (x # ys)"
      using ys by (simp add: keepFirst_def)
    moreover have "subseq (x # ys) (x # xs)" using ys by simp
    ultimately show ?thesis by blast
  next
    case False
    then have "foldl keepFirst acc (x # xs) = acc @ ys"
      using ys by (simp add: keepFirst_def)
    moreover have "subseq ys (x # xs)" using ys by (simp add: list_emb_Cons)
    ultimately show ?thesis by blast
  qed
qed

lemma keepFirst_names:
  "fullName ` set (foldl keepFirst acc xs) = fullName ` (set acc \<union> set xs)"
proof (induction xs arbitrary: acc)
  case Nil
  then show ?case by simp
next
  case (Cons x xs)
  have "fullName ` set (keepFirst acc x) = fullName ` (set acc \<union> {x})"
    by (auto simp: keepFirst_def find_None_iff) (metis image_eqI)
  then show ?case using Cons.IH[of "keepFirst acc x"] by (simp add: image_Un)
qed

lemma find_append_eq:
  "find P (xs @ ys) = (case find P xs of None \<Rightarrow> find P ys | Some x \<Rightarrow> Some x)"
  by (induction xs) auto

lemma find_distinct_key:
  "r \<in> set acc \<Longrightarrow> distinct (map f acc) \<Longrightarrow> find (\<lambda>x. f x = f r) acc = Some r"
  by (induction acc) force+

lemma keepFirst_first:
  "r \<in> set (foldl keepFirst acc xs) \<Longrightarrow> distinct (map fullName acc)
     \<Longrightarrow> find (\<lambda>x. fullName x = fullName r) (acc @ xs) = Some r"
proof (induction xs arbitrary: acc)
  case Nil
  then show ?case by (simp add: find_distinct_key)
next
  case (Cons x xs)
  have d: "distinct (map fullName (keepFirst acc x))"
    using Cons.prems(2) by (auto simp: keepFirst_def find_None_iff)
  have ih: "find (\<lambda>y. fullName y = fullName r) (keepFirst acc x @ xs) = Some r"
    using Cons.IH[OF _ d] Cons.prems(1) by simp
  show ?case
  proof (cases "find (\<lambda>repo. fullName repo = fullName x) acc = None")
    case True
    then show ?thesis using ih by (simp add: keepFirst_def)
  next
    case False
    then obtain y where y: "y \<in> set acc" "fullName y = fullName x"
      by (auto simp: find_None_iff)
    have kf: "keepFirst acc x = acc" using False by (simp add: keepFirst_def)
    have ih': "find (\<lambda>y. fullName y = fullName r) (acc @ xs) = Some r"
      using ih unfolding kf .
    show ?thesis
    proof (cases "find (\<lambda>y. fullName y = fullName r) acc")
      case None
      then have "fullName x \<noteq> fullName r" using y by (auto simp: find_None_iff)
      then show ?thesis using ih' None by (simp add: find_append_eq)
    next
      case (Some z)
      then show ?thesis using ih' by (simp add: find_append_eq)
    qed
  qed
qed

lemma dedupe_distinct: "distinct (map fullName (dedupe xs))"
  using keepFirst_distinct[of "[]" xs] by (simp add: dedupe_def)

lemma dedupe_subseq: "subseq (dedupe xs) xs"
  using keepFirst_subseq[of "[]" xs] by (auto simp: dedupe_def)

lemma dedupe_names: "fullName ` set (dedupe xs) = fullName ` set xs"
  using keepFirst_names[of "[]" xs] by (simp add: dedupe_def)

lemma dedupe_first:
  "r \<in> set (dedupe xs) \<Longrightarrow> find (\<lambda>x. fullName x = fullName r) xs = Some r"
  using keepFirst_first[of r "[]" xs] by (simp add: dedupe_def)

lemma set_dedupe_subset: "set (dedupe xs) \<subseteq> set xs"
  using list_emb_set[OF dedupe_subseq[of xs]] by auto

lemma gathered_is_dedupe:
  assumes "fetchRepositories_action adapter opts = (evs, Inr gathered)"
  shows "gathered = dedupe (discovered adapter opts)"
  using assms
  by (cases "fetchRepositories adapter (repos opts)"; cases "owner opts";
      cases "fetchRepositoriesByOwner adapter (the (owner opts))")
     (simp_all add: fetchRepositories_action_def discovered_def await_simps perform_def
        resolve_def split: if_splits)

text \<open>
  C5.  Whenever gathering returns, what it returns is the deduplication of the entities
  discovered (those of the name list followed by those of the owner): no two returned
  entities have the same \<open>fullName\<close>; the returned list is a subsequence of the discovered
  one, so discovery order is kept; every discovered \<open>fullName\<close> is still present; and each
  returned entity is the first discovered entity of its \<open>fullName\<close>.
\<close>

theorem gathered_repositories_deduplicated:
  assumes "fetchRepositories_action adapter opts = (evs, Inr gathered)"
  shows "gathered = dedupe (discovered adapter opts)
       \<and> distinct (map fullName gathered)
       \<and> subseq gathered (discovered adapter opts)
       \<and> fullName ` set gathered = fullName ` set (discovered adapter opts)
       \<and> (\<forall>r \<in> set gathered.
             find (\<lambda>x. fullName x = fullName r) (discovered adapter opts) = Some r)"
  unfolding gathered_is_dedupe[OF assms]
  using dedupe_distinct dedupe_subseq dedupe_names dedupe_first by blast

theorem gathered_repositories_witness:
  "fetchRepositories_action (GitHub (demoApi [] []) demoParse noLockfiles)
      (demoOptions\<lparr>owner := Some ''acme''\<rparr>)
     = ([FetchRepositories [''acme/a'', ''acme/b'', ''acme/c''], FetchRepositoriesByOwner ''acme''],
        Inr (map (\<lambda>full. createRepositoryEntity (demoRaw full))
               [''acme/a'', ''acme/b'', ''acme/c'', ''acme/d'']))
   \<and> discovered (GitHub (demoApi [] []) demoParse noLockfiles) (demoOptions\<lparr>owner := Some ''acme''\<rparr>)
     = map (\<lambda>full. createRepositoryEntity (demoRaw full))
         [''acme/a'', ''acme/b'', ''acme/c'', ''acme/b'', ''acme/d'']
   \<and> distinct (map fullName (map (\<lambda>full. createRepositoryEntity (demoRaw full))
               [''acme/a'', ''acme/b'', ''acme/c'', ''acme/d'']))
   \<and> subseq (map (\<lambda>full. createRepositoryEntity (demoRaw full))
               [''acme/a'', ''acme/b'', ''acme/c'', ''acme/d''])
            (discovered (GitHub (demoApi [] []) demoParse noLockfiles) (demoOptions\<lparr>owner := Some ''acme''\<rparr>))"
proof -
  have run: "fetchRepositories_action (GitHub (demoApi [] []) demoParse noLockfiles)
      (demoOptions\<lparr>owner := Some ''acme''\<rparr>)
     = ([FetchRepositories [''acme/a'', ''acme/b'', ''acme/c''], FetchRepositoriesByOwner ''acme''],
        Inr (map (\<lambda>full. createRepositoryEntity (demoRaw full))
               [''acme/a'', ''acme/b'', ''acme/c'', ''acme/d'']))"
    by code_simp
  have found: "discovered (GitHub (demoApi [] []) demoParse noLockfiles) (demoOptions\<lparr>owner := Some ''acme''\<rparr>)
     = map (\<lambda>full. createRepositoryEntity (demoRaw full))
         [''acme/a'', ''acme/b'', ''acme/c'', ''acme/b'', ''acme/d'']"
    by code_simp
  from gathered_repositories_deduplicated[OF run] run found show ?thesis by blast
qed

section \<open>The classifier\<close>

lemma outdated_iff:
  "outdated deps n v = Some cur \<longleftrightarrow> declaredVersion deps n = Some cur \<and> cur \<noteq> v"
  by (auto simp: outdated_def declaredVersion_def split: option.splits)

lemma classify_Some:
  assumes "classify h r n v = Some r'"
  shows "\<exists>pd m rel. packageDefinition r = Some pd \<and> deref h (decoded pd) = Some m
           \<and> r' = r\<lparr>dependencyRelationship := Some rel\<rparr>
           \<and> packageName rel = n \<and> packageVersion rel = v \<and> currentVersion rel \<noteq> v
           \<and> ((type rel = ''prod'' \<and> declaredVersion (dependencies m) n = Some (currentVersion rel))
              \<or> (type rel = ''dev'' \<and> declaredVersion (devDependencies m) n = Some (currentVersion rel)))"
  using assms
  by (auto simp: classify_def outdated_iff split: option.splits)

lemma classify_outdated:
  assumes "packageDefinition r = Some pd" "deref h (decoded pd) = Some m"
  shows "(\<exists>r'. classify h r n v = Some r')
         \<longleftrightarrow> (\<exists>cur. declaredVersion (dependencies m) n = Some cur \<and> cur \<noteq> v)
             \<or> (\<exists>cur. declaredVersion (devDependencies m) n = Some cur \<and> cur \<noteq> v)"
proof -
  have 1: "(\<exists>r'. classify h r n v = Some r')
        \<longleftrightarrow> (\<exists>cur. outdated (dependencies m) n v = Some cur)
            \<or> (\<exists>cur. outdated (devDependencies m) n v = Some cur)"
    using assms by (auto simp: classify_def split: option.splits)
  show ?thesis unfolding 1 outdated_iff ..
qed

lemma classify_without_manifest:
  "packageDefinition r = None \<Longrightarrow> classify h r n v = None"
  by (simp add: classify_def)

lemma set_map_filter: "set (List.map_filter f xs) = {y. \<exists>x \<in> set xs. f x = Some y}"
  by (induction xs) (auto simp: map_filter_simps split: option.splits)

text \<open>
  C2.  For a repository of the input whose decoded manifest is \<open>m\<close>: the output of the
  classifier holds that repository (with a dependency relationship attached) if and only if
  \<open>dependencies\<close> or \<open>devDependencies\<close> of \<open>m\<close> declares the target package with a version
  different from the target version; so a manifest that lacks the package, or declares
  exactly the target version wherever it declares it, is excluded.  Every entity of the output
  is an input repository with a relationship attached whose package and version are the
  target's, whose \<open>currentVersion\<close> differs from the target version and is the version declared
  by the map its \<open>type\<close> names: \<open>dependencies\<close> for \<open>prod\<close>, \<open>devDependencies\<close> for \<open>dev\<close>.
\<close>

theorem classifier_includes_outdated_only:
  assumes "repository \<in> set repositories"
      and "packageDefinition repository = Some pd" and "deref h (decoded pd) = Some m"
  shows "((\<exists>rel. repository\<lparr>dependencyRelationship := Some rel\<rparr>
              \<in> set (repositoriesByDependencyUpgrade h repositories n v))
          \<longleftrightarrow> (\<exists>cur. declaredVersion (dependencies m) n = Some cur \<and> cur \<noteq> v)
              \<or> (\<exists>cur. declaredVersion (devDependencies m) n = Some cur \<and> cur \<noteq> v))
       \<and> (\<forall>r' \<in> set (repositoriesByDependencyUpgrade h repositories n v).
            \<exists>r \<in> set repositories. \<exists>pd' m' rel.
               packageDefinition r = Some pd' \<and> deref h (decoded pd') = Some m'
             \<and> r' = r\<lparr>dependencyRelationship := Some rel\<rparr>
             \<and> packageName rel = n \<and> packageVersion rel = v \<and> currentVersion rel \<noteq> v
             \<and> ((type rel = ''prod'' \<and> declaredVersion (dependencies m') n = Some (currentVersion rel))
                \<or> (type rel = ''dev'' \<and> declaredVersion (devDependencies m') n = Some (currentVersion rel))))"
proof (intro conjI)
  let ?out = "repositoriesByDependencyUpgrade h repositories n v"
  let ?cond = "(\<exists>cur. declaredVersion (dependencies m) n = Some cur \<and> cur \<noteq> v)
              \<or> (\<exists>cur. declaredVersion (devDependencies m) n = Some cur \<and> cur \<noteq> v)"
  show "(\<exists>rel. repository\<lparr>dependencyRelationship := Some rel\<rparr> \<in> set ?out) \<longleftrightarrow> ?cond"
  proof
    assume "\<exists>rel. repository\<lparr>dependencyRelationship := Some rel\<rparr> \<in> set ?out"
    then obtain rel r0 where r0: "r0 \<in> set repositories"
        "classify h r0 n v = Some (repository\<lparr>dependencyRelationship := Some rel\<rparr>)"
      by (auto simp: repositoriesByDependencyUpgrade_def set_map_filter)
    from classify_Some[OF r0(2)] obtain rel' where
      "repository\<lparr>dependencyRelationship := Some rel\<rparr> = r0\<lparr>dependencyRelationship := Some rel'\<rparr>"
      by blast
    then have "packageDefinition (repository\<lparr>dependencyRelationship := Some rel\<rparr>)
                 = packageDefinition (r0\<lparr>dependencyRelationship := Some rel'\<rparr>)"
      by simp
    then have "packageDefinition r0 = Some pd" using assms(2) by simp
    from classify_outdated[OF this assms(3), of n v] r0(2) show ?cond by blast
  next
    assume ?cond
    then obtain r' where r': "classify h repository n v = Some r'"
      using classify_outdated[OF assms(2,3), of n v] by blast
    from classify_Some[OF this] obtain rel where "r' = repository\<lparr>dependencyRelationship := Some rel\<rparr>"
      by blast
    then show "\<exists>rel. repository\<lparr>dependencyRelationship := Some rel\<rparr> \<in> set ?out"
      using r' assms(1) by (auto simp: repositoriesByDependencyUpgrade_def set_map_filter)
  qed
  show "\<forall>r' \<in> set ?out.
            \<exists>r \<in> set repositories. \<exists>pd' m' rel.
               packageDefinition r = Some pd' \<and> deref h (decoded pd') = Some m'
             \<and> r' = r\<lparr>dependencyRelationship := Some rel\<rparr>
             \<and> packageName rel = n \<and> packageVersion rel = v \<and> currentVersion rel \<noteq> v
             \<and> ((type rel = ''prod'' \<and> declaredVersion (dependencies m') n = Some (currentVersion rel))
                \<or> (type rel = ''dev'' \<and> declaredVersion (devDependencies m') n = Some (currentVersion rel)))"
    by (auto simp: repositoriesByDependencyUpgrade_def set_map_filter dest!: classify_Some)
qed

theorem classifier_scenario_witness:
  "scenarioA \<in> set [scenarioA, scenarioB]
   \<and> packageDefinition scenarioA = Some \<lparr> decoded = 0, sha = ''blob-acme/a'' \<rparr>
   \<and> deref scenarioStore 0 = Some (scenarioStore ! 0)
   \<and> declaredVersion (dependencies (scenarioStore ! 0)) ''lodash'' = Some ''4.17.0''
   \<and> (\<exists>rel. scenarioA\<lparr>dependencyRelationship := Some rel\<rparr>
          \<in> set (repositoriesByDependencyUpgrade scenarioStore [scenarioA, scenarioB] ''lodash'' ''4.17.21''))
   \<and> repositoriesByDependencyUpgrade scenarioStore [scenarioA, scenarioB] ''lodash'' ''4.17.21''
       = [classifiedA]"
proof -
  have 1: "scenarioA \<in> set [scenarioA, scenarioB]" by simp
  have 2: "packageDefinition scenarioA = Some \<lparr> decoded = 0, sha = ''blob-acme/a'' \<rparr>"
    by (simp add: scenarioA_def)
  have 3: "deref scenarioStore (decoded \<lparr> decoded = 0, sha = ''blob-acme/a'' \<rparr>) = Some (scenarioStore ! 0)"
    by (simp add: deref_def scenarioStore_def)
  have 4: "declaredVersion (dependencies (scenarioStore ! 0)) ''lodash'' = Some ''4.17.0''"
    by (simp add: declaredVersion_def scenarioStore_def)
  have 5: "repositoriesByDependencyUpgrade scenarioStore [scenarioA, scenarioB] ''lodash'' ''4.17.21''
       = [classifiedA]"
    by code_simp
  from classifier_includes_outdated_only[OF 1 2 3, of "''lodash''" "''4.17.21''"] 4
  have "\<exists>rel. scenarioA\<lparr>dependencyRelationship := Some rel\<rparr>
          \<in> set (repositoriesByDependencyUpgrade scenarioStore [scenarioA, scenarioB] ''lodash'' ''4.17.21'')"
    by auto
  then show ?thesis using 1 2 3 4 5 by simp
qed

section \<open>The publish pipeline\<close>

lemma map_filter_app:
  "List.map_filter f (xs @ ys) = List.map_filter f xs @ List.map_filter f ys"
  by (simp add: List.map_filter_def)

lemma steps_simps [simp]:
  "steps [] = []"
  "steps (ev # evs) = (case stepOf ev of None \<Rightarrow> steps evs | Some s \<Rightarrow> s # steps evs)"
  "steps (xs @ ys) = steps xs @ steps ys"
  by (simp_all add: steps_def map_filter_simps map_filter_app split: option.splits)

lemma conforms_await:
  assumes "conforms p s1" and "\<And>x. snd p = Inr x \<Longrightarrow> conforms (k x) s2"
  shows "conforms (await p k) (s1 @ s2)"
proof (cases "snd p")
  case (Inl err)
  then show ?thesis using assms(1) by (simp add: conforms_def fst_await snd_await)
next
  case (Inr x)
  then show ?thesis using assms(1) assms(2)[OF Inr]
    by (auto simp: conforms_def fst_await snd_await split: sum.splits)
qed

lemma conforms_perform: "stepOf ev = Some s \<Longrightarrow> conforms (perform ev r) [s]"
  by (auto simp: conforms_def perform_def split: sum.splits)

lemma conforms_silent:
  "conforms (notify action message) []"
  "conforms (resolve x) []"
  "conforms (throwing r) []"
  by (auto simp: conforms_def notify_def perform_def resolve_def throwing_def split: sum.splits)

lemma await_notify:
  "conforms (k ()) ss \<Longrightarrow> conforms (await (notify action message) k) ss"
  using conforms_await[of "notify action message" "[]" k ss] by (simp add: conforms_silent)

lemma await_throwing:
  "(\<And>x. r = Inr x \<Longrightarrow> conforms (k x) ss) \<Longrightarrow> conforms (await (throwing r) k) ss"
  using conforms_await[of "throwing r" "[]" k ss]
  by (simp add: conforms_silent) (simp add: throwing_def)

lemma await_perform:
  "stepOf ev = Some s \<Longrightarrow> (\<And>x. r = Inr x \<Longrightarrow> conforms (k x) ss)
     \<Longrightarrow> conforms (await (perform ev r) k) (s # ss)"
  using conforms_await[of "perform ev r" "[s]" k ss]
  by (simp add: conforms_perform) (simp add: perform_def)

lemma conforms_pullRequest:
  "conforms
     (if \<not> noPullRequest opts then
        await (notify action ''Creating pull request.'')
          (\<lambda>_. await (throwing (getPullRequest repository None))
             (\<lambda>pr. perform (CreatePullRequest repository branchName pr)
                      (createPullRequest adapter repository branchName pr)))
      else resolve ())
     (if noPullRequest opts then [] else [PullRequest])"
proof (cases "noPullRequest opts")
  case True
  then show ?thesis by (simp add: conforms_silent)
next
  case False
  have "conforms
     (await (notify action ''Creating pull request.'')
          (\<lambda>_. await (throwing (getPullRequest repository None))
             (\<lambda>pr. perform (CreatePullRequest repository branchName pr)
                      (createPullRequest adapter repository branchName pr)))) [PullRequest]"
    by (rule await_notify, rule await_throwing, rule conforms_perform) simp
  then show ?thesis using False by simp
qed

lemma conforms_lockfile:
  "conforms
     (if \<not> noLockfile opts then
        await (notify action ''Generating lockfile.'')
          (\<lambda>_. await (perform (FetchLockfileDefinition repository) (fetchLockfileDefinition adapter repository))
             (\<lambda>currentLockFile.
                case currentLockFile of
                  None \<Rightarrow> resolve (repository, None)
                | Some lock \<Rightarrow>
                    await (perform (GenerateLockfile f (packageManager lock) (registry opts))
                             (create f (packageManager lock) (registry opts)))
                      (\<lambda>updatedLockFile.
                         resolve (repository\<lparr>lockfileEntity := Some lock\<rparr>, Some updatedLockFile))))
      else resolve (repository, None))
     (if noLockfile opts then []
      else FetchLockfile # (if hasRemoteLockfile adapter repository then [GenerateLock] else []))"
proof (cases "noLockfile opts")
  case True
  then show ?thesis by (simp add: conforms_silent)
next
  case False
  have "conforms
     (await (notify action ''Generating lockfile.'')
          (\<lambda>_. await (perform (FetchLockfileDefinition repository) (fetchLockfileDefinition adapter repository))
             (\<lambda>currentLockFile.
                case currentLockFile of
                  None \<Rightarrow> resolve (repository, None)
                | Some lock \<Rightarrow>
                    await (perform (GenerateLockfile f (packageManager lock) (registry opts))
                             (create f (packageManager lock) (registry opts)))
                      (\<lambda>updatedLockFile.
                         resolve (repository\<lparr>lockfileEntity := Some lock\<rparr>, Some updatedLockFile)))))
     (FetchLockfile # (if hasRemoteLockfile adapter repository then [GenerateLock] else []))"
  proof (rule await_notify, rule await_perform)
    fix x assume fetched: "fetchLockfileDefinition adapter repository = Inr x"
    show "conforms
            (case x of
               None \<Rightarrow> resolve (repository, None)
             | Some lock \<Rightarrow>
                 await (perform (GenerateLockfile f (packageManager lock) (registry opts))
                          (create f (packageManager lock) (registry opts)))
                   (\<lambda>updatedLockFile.
                      resolve (repository\<lparr>lockfileEntity := Some lock\<rparr>, Some updatedLockFile)))
            (if hasRemoteLockfile adapter repository then [GenerateLock] else [])"
    proof (cases x)
      case None
      then show ?thesis using fetched by (simp add: hasRemoteLockfile_def conforms_silent)
    next
      case (Some lock)
      have "conforms
              (await (perform (GenerateLockfile f (packageManager lock) (registry opts))
                        (create f (packageManager lock) (registry opts)))
                 (\<lambda>updatedLockFile.
                    resolve (repository\<lparr>lockfileEntity := Some lock\<rparr>, Some updatedLockFile)))
              [GenerateLock]"
        by (rule await_perform) (simp_all add: conforms_silent)
      then show ?thesis using fetched Some by (simp add: hasRemoteLockfile_def)
    qed
  qed simp
  then show ?thesis using False by simp
qed

lemma commitUpdates_conforms:
  "conforms (commitUpdates action adapter e opts repository branchName packageDef create)
     (pipelineSteps opts (hasRemoteLockfile adapter repository))"
proof -
  have eq: "pipelineSteps opts (hasRemoteLockfile adapter repository) =
      Format #
      ((if noLockfile opts then []
        else FetchLockfile # (if hasRemoteLockfile adapter repository then [GenerateLock] else [])) @
       (Branch # Commit # (if noPullRequest opts then [] else [PullRequest])))"
    by (simp add: pipelineSteps_def)
  show ?thesis
    unfolding eq commitUpdates_def
    apply (rule await_perform, simp)
    apply (rule conforms_await)
     apply (rule conforms_lockfile)
    subgoal for formatted pair
      apply (cases pair)
      apply (simp only: prod.case)
      apply (rule await_notify)
      apply (rule await_perform, simp)
      apply (rule await_notify)
      apply (rule await_throwing)
      apply (rule await_perform, simp)
      apply (rule conforms_pullRequest)
      done
    done
qed

lemma map_of_insert:
  assumes "map_of (xs @ ys) key = None"
  shows "map_of (xs @ (key, v) # ys) = (map_of (xs @ ys))(key \<mapsto> v)"
proof (rule ext)
  fix k
  from assms have "map_of xs key = None" "map_of ys key = None"
    by (auto simp: map_add_def split: option.splits)
  then show "map_of (xs @ (key, v) # ys) k = ((map_of (xs @ ys))(key \<mapsto> v)) k"
    by (cases "map_of xs k") (auto simp: map_add_def)
qed

lemma setProperty_map_of: "map_of (setProperty key v kvs) = (map_of kvs)(key \<mapsto> v)"
proof (cases "map_of kvs key")
  case (Some old)
  then show ?thesis by (simp add: setProperty_def update_conv')
next
  case None
  show ?thesis
  proof (cases "arrayIndex key")
    case absent: None
    from map_of_insert[of kvs "[]" key v] None absent show ?thesis
      by (simp add: setProperty_def)
  next
    case (Some i)
    from map_of_insert[of "takeWhile (precedes i) kvs" "dropWhile (precedes i) kvs" key v] None Some
    show ?thesis by (simp add: setProperty_def)
  qed
qed

lemma setProperty_existing:
  "map_of kvs key = Some old \<Longrightarrow> map fst (setProperty key v kvs) = map fst kvs"
  by (auto simp: setProperty_def update_keys dest: map_of_SomeD intro: rev_image_eqI)

lemma setProperty_order:
  "setProperty ''7'' ''1.0.0'' [(''10'', ''2.0.0''), (''lodash'', ''4.17.0'')]
     = [(''7'', ''1.0.0''), (''10'', ''2.0.0''), (''lodash'', ''4.17.0'')]
   \<and> setProperty ''07'' ''1.0.0'' [(''10'', ''2.0.0''), (''lodash'', ''4.17.0'')]
     = [(''10'', ''2.0.0''), (''lodash'', ''4.17.0''), (''07'', ''1.0.0'')]
   \<and> setProperty ''lodash'' ''4.17.21'' [(''lodash'', ''4.17.0''), (''express'', ''4.16.0'')]
     = [(''lodash'', ''4.17.21''), (''express'', ''4.16.0'')]
   \<and> setProperty ''mocha'' ''5.2.0'' [(''lodash'', ''4.17.0'')]
     = [(''lodash'', ''4.17.0''), (''mocha'', ''5.2.0'')]"
  by code_simp

lemma updateRepository_fulfilled:
  assumes "packageDefinition repo = Some pd" and "dependencyRelationship repo = Some rel"
      and "deref (objects w) (decoded pd) = Some m"
      and "(if type rel = ''dev'' then devDependencies m else dependencies m) = Some kvs"
  shows "updateRepository adapter e repo pn pv opts w =
           (([Notify ACTION (''Updating '' @ fullName repo)], Inr ()),
            w\<lparr> objects := (objects w)[decoded pd :=
                  (if type rel = ''dev''
                   then m\<lparr>devDependencies := Some (setProperty pn pv kvs)\<rparr>
                   else m\<lparr>dependencies := Some (setProperty pn pv kvs)\<rparr>)],
               floating := floating w @
                  [commitUpdates ACTION adapter e opts repo (''turnup/'' @ pn @ ''@'' @ pv)
                     (if type rel = ''dev''
                      then m\<lparr>devDependencies := Some (setProperty pn pv kvs)\<rparr>
                      else m\<lparr>dependencies := Some (setProperty pn pv kvs)\<rparr>)
                     (lockfile_create e)] \<rparr>)"
  using assms by (auto simp: updateRepository_def Let_def assign_def split: if_splits)

lemma updateRepository_spawns:
  assumes "updateRepository adapter e repo pn pv opts w = ((evs, Inr ()), w')"
  obtains pd rel m kvs where
    "packageDefinition repo = Some pd" and "dependencyRelationship repo = Some rel"
    and "deref (objects w) (decoded pd) = Some m"
    and "(if type rel = ''dev'' then devDependencies m else dependencies m) = Some kvs"
proof -
  from assms obtain pd where pd: "packageDefinition repo = Some pd"
    by (cases "packageDefinition repo") (auto simp: updateRepository_def Let_def)
  from assms pd obtain rel where rel: "dependencyRelationship repo = Some rel"
    by (cases "dependencyRelationship repo") (auto simp: updateRepository_def Let_def)
  from assms pd rel obtain m where m: "deref (objects w) (decoded pd) = Some m"
    by (cases "deref (objects w) (decoded pd)") (auto simp: updateRepository_def Let_def)
  from assms pd rel m obtain kvs
    where kvs: "(if type rel = ''dev'' then devDependencies m else dependencies m) = Some kvs"
    by (cases "if type rel = ''dev'' then devDependencies m else dependencies m")
       (auto simp: updateRepository_def Let_def assign_def split: if_splits)
  from pd rel m kvs show ?thesis by (rule that)
qed

lemma updateRepository_rejected:
  "updateRepository adapter e repo pn pv opts w = ((evs, Inl err), w') \<Longrightarrow> w' = w"
  by (auto simp: updateRepository_def Let_def split: option.splits sum.splits)

lemma runPlan_all_answered:
  "list_all (\<lambda>entry. snd entry = Inr ()) p
     \<Longrightarrow> snd (runPlan p) = Inr () \<and> fst (runPlan p) = List.map_filter fst p"
  by (induction p) (auto simp: map_filter_simps split: option.splits)

lemma runPlan_rejected:
  "snd (runPlan p) = Inl err \<Longrightarrow> \<exists>ev. (ev, Inl err) \<in> set p"
  by (induction p) (auto split: sum.splits)

lemma publish_runs_plan:
  "await (notify action ''Creating branch.'')
       (\<lambda>_.
     await (perform (CreateBranch target branchName) (createBranch adapter target branchName))
       (\<lambda>_.
     await (notify action ''Creating commit.'')
       (\<lambda>_.
     await (throwing (getCommitMessage target action))
       (\<lambda>message.
     await (perform (CommitPackageDefinition target branchName formatted lockFile message)
              (commitPackageDefinition adapter target branchName formatted lockFile message))
       (\<lambda>_.
     if \<not> noPullRequest opts then
       await (notify action ''Creating pull request.'')
         (\<lambda>_.
       await (throwing (getPullRequest target None))
         (\<lambda>pr.
            perform (CreatePullRequest target branchName pr)
              (createPullRequest adapter target branchName pr)))
     else resolve ())))))
   = runPlan
       ([(Some (Notify action ''Creating branch.''), Inr ()),
         (Some (CreateBranch target branchName), createBranch adapter target branchName),
         (Some (Notify action ''Creating commit.''), Inr ()),
         (None, answered (getCommitMessage target action)),
         (Some (CommitPackageDefinition target branchName formatted lockFile
                  (case getCommitMessage target action of Inr text \<Rightarrow> text | Inl err \<Rightarrow> [])),
          commitPackageDefinition adapter target branchName formatted lockFile
            (case getCommitMessage target action of Inr text \<Rightarrow> text | Inl err \<Rightarrow> []))]
        @ (if noPullRequest opts then []
           else [(Some (Notify action ''Creating pull request.''), Inr ()),
                 (None, answered (getPullRequest target None)),
                 (Some (CreatePullRequest target branchName
                          (case getPullRequest target None of
                             Inr request \<Rightarrow> request
                           | Inl err \<Rightarrow> \<lparr> body = [], title = [] \<rparr>)),
                  createPullRequest adapter target branchName
                    (case getPullRequest target None of
                       Inr request \<Rightarrow> request
                     | Inl err \<Rightarrow> \<lparr> body = [], title = [] \<rparr>))]))"
  by (auto simp: await_def perform_def notify_def throwing_def resolve_def answered_def
        split: sum.splits)

lemma runPlan_cons:
  "runPlan ((ev, r) # rest) = await (case ev of None \<Rightarrow> [] | Some x \<Rightarrow> [x], r) (\<lambda>x. runPlan rest)"
  by (cases r) (simp_all add: await_simps)

lemma commitUpdates_runs_plan:
  "commitUpdates action adapter e opts repository branchName packageDef create
     = runPlan (pipelinePlan action adapter e opts repository branchName packageDef create)"
proof (cases "formatPackage e packageDef")
  case (Inl err)
  then show ?thesis
    by (simp add: commitUpdates_def pipelinePlan_def Let_def perform_def await_simps answered_def)
next
  case formatted: (Inr f)
  show ?thesis
  proof (cases "noLockfile opts")
    case True
    with formatted show ?thesis
      unfolding commitUpdates_def publish_runs_plan
      by (simp add: pipelinePlan_def Let_def perform_def await_simps answered_def resolve_def
            runPlan_cons del: runPlan.simps(2))
  next
    case False
    show ?thesis
    proof (cases "fetchLockfileDefinition adapter repository")
      case (Inl err)
      with formatted False show ?thesis
        unfolding commitUpdates_def publish_runs_plan
        by (simp add: pipelinePlan_def Let_def perform_def await_simps answered_def notify_def
              runPlan_cons del: runPlan.simps(2))
    next
      case fetched: (Inr current)
      show ?thesis
      proof (cases current)
        case None
        with formatted False fetched show ?thesis
          unfolding commitUpdates_def publish_runs_plan
          by (simp add: pipelinePlan_def Let_def perform_def await_simps answered_def notify_def
                  resolve_def runPlan_cons del: runPlan.simps(2))
      next
        case (Some lock)
        show ?thesis
        proof (cases "create f (packageManager lock) (registry opts)")
          case (Inl err)
          with formatted False fetched Some show ?thesis
            unfolding commitUpdates_def publish_runs_plan
            by (simp add: pipelinePlan_def Let_def perform_def await_simps answered_def notify_def
              runPlan_cons del: runPlan.simps(2))
        next
          case (Inr generated)
          with formatted False fetched Some show ?thesis
            unfolding commitUpdates_def publish_runs_plan
            by (simp add: pipelinePlan_def Let_def perform_def await_simps answered_def notify_def
                  resolve_def runPlan_cons del: runPlan.simps(2))
        qed
      qed
    qed
  qed
qed

lemma plannedSteps_pipelinePlan:
  "plannedSteps (pipelinePlan action adapter e opts repository branchName packageDef create)
     = pipelineSteps opts (hasRemoteLockfile adapter repository)"
  by (auto simp: plannedSteps_def pipelinePlan_def pipelineSteps_def hasRemoteLockfile_def Let_def
        map_filter_simps map_filter_app split: sum.splits option.splits)

lemma commitUpdates_starts:
  "\<exists>rest. fst (commitUpdates action adapter e opts repository branchName packageDef create)
            = FormatPackage packageDef # rest"
  by (simp add: commitUpdates_def fst_await perform_def)

lemma commitUpdates_without_lockfile:
  assumes "formatPackage e packageDef = Inr f" and "noLockfile opts"
  shows "\<exists>rest. fst (commitUpdates action adapter e opts repository branchName packageDef create)
            = [FormatPackage packageDef, Notify action ''Creating branch.'',
               CreateBranch repository branchName] @ rest"
  using assms
  by (simp add: commitUpdates_def fst_await snd_await perform_def notify_def resolve_def)

lemma commitUpdates_with_lockfile:
  assumes "formatPackage e packageDef = Inr f" and "\<not> noLockfile opts"
  shows "\<exists>rest. fst (commitUpdates action adapter e opts repository branchName packageDef create)
            = [FormatPackage packageDef, Notify action ''Generating lockfile.'',
               FetchLockfileDefinition repository] @ rest"
  using assms
  by (simp add: commitUpdates_def fst_await snd_await perform_def notify_def resolve_def)

lemma commitUpdates_progress:
  assumes "list_all (\<lambda>entry. snd entry = Inr ())
             (pipelinePlan action adapter e opts repository branchName packageDef create)"
  shows "snd (commitUpdates action adapter e opts repository branchName packageDef create) = Inr ()
         \<and> steps (fst (commitUpdates action adapter e opts repository branchName packageDef create))
           = pipelineSteps opts (hasRemoteLockfile adapter repository)"
  using runPlan_all_answered[OF assms]
    plannedSteps_pipelinePlan[of action adapter e opts repository branchName packageDef create]
  by (simp add: commitUpdates_runs_plan plannedSteps_def)

lemma commitUpdates_failure:
  assumes "snd (commitUpdates action adapter e opts repository branchName packageDef create) = Inl err"
  shows "\<exists>ev. (ev, Inl err)
           \<in> set (pipelinePlan action adapter e opts repository branchName packageDef create)"
  using assms unfolding commitUpdates_runs_plan by (rule runPlan_rejected)

lemma commitUpdates_steps_subset:
  "set (steps (fst (commitUpdates action adapter e opts repository branchName packageDef create)))
     \<subseteq> set (pipelineSteps opts (hasRemoteLockfile adapter repository))"
  using commitUpdates_conforms[of action adapter e opts repository branchName packageDef create]
  by (auto simp: conforms_def dest: set_mono_prefix)

text \<open>
  C8.  A pipeline run is the run of the spec's plan: the calls of the plan are made in its
  order, each once all before it have answered, and the run stops at the first call that
  fails, with its error.  The steps of the plan are \<open>pipelineSteps\<close>: format, the lockfile
  step, branch creation, commit, pull request.  So when every call of the plan answers, the
  run is fulfilled and has performed exactly these steps, none skipped; a rejected run has
  the error of a call of the plan.  The manifest mutation comes first: \<open>updateRepository\<close>,
  given an entity with a decoded manifest, a dependency relationship and the dependency map
  its type names, is fulfilled, has written the target version into \<open>devDependencies\<close> (type
  \<open>dev\<close>) or \<open>dependencies\<close> (any other type) of the stored manifest, and has started one
  pipeline, which formats that manifest; it is fulfilled in no other case.  The steps a run
  has performed are always a prefix of \<open>pipelineSteps\<close>, and all of them when it is
  fulfilled.  The first call is the formatting; once it has answered, the next call is the
  branch creation when \<open>noLockfile\<close> is set and the lockfile fetch when it is not; a run
  with \<open>noLockfile\<close> never fetches a lockfile and one with \<open>noPullRequest\<close> never opens a pull
  request.  In \<open>pipelineSteps\<close> the lockfile fetch stands exactly without \<open>noLockfile\<close> (and
  generation only then), the pull request exactly without \<open>noPullRequest\<close>, and format, branch
  and commit always.
\<close>

theorem publish_pipeline_step_order:
  "commitUpdates action adapter e opts repository branchName packageDef create
     = runPlan (pipelinePlan action adapter e opts repository branchName packageDef create)
   \<and> plannedSteps (pipelinePlan action adapter e opts repository branchName packageDef create)
     = pipelineSteps opts (hasRemoteLockfile adapter repository)
   \<and> (list_all (\<lambda>entry. snd entry = Inr ())
         (pipelinePlan action adapter e opts repository branchName packageDef create) \<longrightarrow>
        snd (commitUpdates action adapter e opts repository branchName packageDef create) = Inr ()
        \<and> steps (fst (commitUpdates action adapter e opts repository branchName packageDef create))
          = pipelineSteps opts (hasRemoteLockfile adapter repository))
   \<and> (\<forall>pd rel m kvs.
         packageDefinition repo = Some pd \<and> dependencyRelationship repo = Some rel
       \<and> deref (objects w) (decoded pd) = Some m
       \<and> (if type rel = ''dev'' then devDependencies m else dependencies m) = Some kvs \<longrightarrow>
         updateRepository adapter e repo pn pv opts w =
           (([Notify ACTION (''Updating '' @ fullName repo)], Inr ()),
            w\<lparr> objects := (objects w)[decoded pd :=
                  (if type rel = ''dev''
                   then m\<lparr>devDependencies := Some (setProperty pn pv kvs)\<rparr>
                   else m\<lparr>dependencies := Some (setProperty pn pv kvs)\<rparr>)],
               floating := floating w @
                  [commitUpdates ACTION adapter e opts repo (''turnup/'' @ pn @ ''@'' @ pv)
                     (if type rel = ''dev''
                      then m\<lparr>devDependencies := Some (setProperty pn pv kvs)\<rparr>
                      else m\<lparr>dependencies := Some (setProperty pn pv kvs)\<rparr>)
                     (lockfile_create e)] \<rparr>)
         \<and> map_of (setProperty pn pv kvs) pn = Some pv
         \<and> (\<exists>rest. fst (commitUpdates ACTION adapter e opts repo (''turnup/'' @ pn @ ''@'' @ pv)
                          (if type rel = ''dev''
                           then m\<lparr>devDependencies := Some (setProperty pn pv kvs)\<rparr>
                           else m\<lparr>dependencies := Some (setProperty pn pv kvs)\<rparr>)
                          (lockfile_create e))
                    = FormatPackage (if type rel = ''dev''
                                     then m\<lparr>devDependencies := Some (setProperty pn pv kvs)\<rparr>
                                     else m\<lparr>dependencies := Some (setProperty pn pv kvs)\<rparr>) # rest))
   \<and> (\<forall>evs w'. updateRepository adapter e repo pn pv opts w = ((evs, Inr ()), w') \<longrightarrow>
        (\<exists>pd rel m kvs.
            packageDefinition repo = Some pd \<and> dependencyRelationship repo = Some rel
          \<and> deref (objects w) (decoded pd) = Some m
          \<and> (if type rel = ''dev'' then devDependencies m else dependencies m) = Some kvs))
   \<and> prefix (steps (fst (commitUpdates action adapter e opts repository branchName packageDef create)))
          (pipelineSteps opts (hasRemoteLockfile adapter repository))
   \<and> (snd (commitUpdates action adapter e opts repository branchName packageDef create) = Inr ()
        \<longrightarrow> steps (fst (commitUpdates action adapter e opts repository branchName packageDef create))
            = pipelineSteps opts (hasRemoteLockfile adapter repository))
   \<and> (\<forall>err. snd (commitUpdates action adapter e opts repository branchName packageDef create) = Inl err
        \<longrightarrow> (\<exists>ev. (ev, Inl err)
               \<in> set (pipelinePlan action adapter e opts repository branchName packageDef create)))
   \<and> (\<exists>rest. fst (commitUpdates action adapter e opts repository branchName packageDef create)
               = FormatPackage packageDef # rest)
   \<and> (\<forall>f. formatPackage e packageDef = Inr f \<and> noLockfile opts \<longrightarrow>
        (\<exists>rest. fst (commitUpdates action adapter e opts repository branchName packageDef create)
                  = [FormatPackage packageDef, Notify action ''Creating branch.'',
                     CreateBranch repository branchName] @ rest))
   \<and> (\<forall>f. formatPackage e packageDef = Inr f \<and> \<not> noLockfile opts \<longrightarrow>
        (\<exists>rest. fst (commitUpdates action adapter e opts repository branchName packageDef create)
                  = [FormatPackage packageDef, Notify action ''Generating lockfile.'',
                     FetchLockfileDefinition repository] @ rest))
   \<and> (FetchLockfile \<in> set (steps (fst (commitUpdates action adapter e opts repository branchName
                                           packageDef create))) \<longrightarrow> \<not> noLockfile opts)
   \<and> (PullRequest \<in> set (steps (fst (commitUpdates action adapter e opts repository branchName
                                         packageDef create))) \<longrightarrow> \<not> noPullRequest opts)
   \<and> (FetchLockfile \<in> set (pipelineSteps opts remote) \<longleftrightarrow> \<not> noLockfile opts)
   \<and> (GenerateLock \<in> set (pipelineSteps opts remote) \<longleftrightarrow> \<not> noLockfile opts \<and> remote)
   \<and> (PullRequest \<in> set (pipelineSteps opts remote) \<longleftrightarrow> \<not> noPullRequest opts)
   \<and> Format \<in> set (pipelineSteps opts remote)
   \<and> Branch \<in> set (pipelineSteps opts remote)
   \<and> Commit \<in> set (pipelineSteps opts remote)"
proof -
  let ?run = "commitUpdates action adapter e opts repository branchName packageDef create"
  let ?plan = "pipelinePlan action adapter e opts repository branchName packageDef create"
  let ?all = "pipelineSteps opts (hasRemoteLockfile adapter repository)"
  have exact: "?run = runPlan ?plan" by (rule commitUpdates_runs_plan)
  have planned: "plannedSteps ?plan = ?all" by (rule plannedSteps_pipelinePlan)
  have progress: "list_all (\<lambda>entry. snd entry = Inr ()) ?plan \<longrightarrow>
      snd ?run = Inr () \<and> steps (fst ?run) = ?all"
    using commitUpdates_progress[of action adapter e opts repository branchName packageDef create]
    by blast
  have mutation: "\<forall>pd rel m kvs.
         packageDefinition repo = Some pd \<and> dependencyRelationship repo = Some rel
       \<and> deref (objects w) (decoded pd) = Some m
       \<and> (if type rel = ''dev'' then devDependencies m else dependencies m) = Some kvs \<longrightarrow>
         updateRepository adapter e repo pn pv opts w =
           (([Notify ACTION (''Updating '' @ fullName repo)], Inr ()),
            w\<lparr> objects := (objects w)[decoded pd :=
                  (if type rel = ''dev''
                   then m\<lparr>devDependencies := Some (setProperty pn pv kvs)\<rparr>
                   else m\<lparr>dependencies := Some (setProperty pn pv kvs)\<rparr>)],
               floating := floating w @
                  [commitUpdates ACTION adapter e opts repo (''turnup/'' @ pn @ ''@'' @ pv)
                     (if type rel = ''dev''
                      then m\<lparr>devDependencies := Some (setProperty pn pv kvs)\<rparr>
                      else m\<lparr>dependencies := Some (setProperty pn pv kvs)\<rparr>)
                     (lockfile_create e)] \<rparr>)
         \<and> map_of (setProperty pn pv kvs) pn = Some pv
         \<and> (\<exists>rest. fst (commitUpdates ACTION adapter e opts repo (''turnup/'' @ pn @ ''@'' @ pv)
                          (if type rel = ''dev''
                           then m\<lparr>devDependencies := Some (setProperty pn pv kvs)\<rparr>
                           else m\<lparr>dependencies := Some (setProperty pn pv kvs)\<rparr>)
                          (lockfile_create e))
                    = FormatPackage (if type rel = ''dev''
                                     then m\<lparr>devDependencies := Some (setProperty pn pv kvs)\<rparr>
                                     else m\<lparr>dependencies := Some (setProperty pn pv kvs)\<rparr>) # rest)"
  proof (intro allI impI, elim conjE, intro conjI)
    fix pd rel m kvs
    assume "packageDefinition repo = Some pd" "dependencyRelationship repo = Some rel"
      "deref (objects w) (decoded pd) = Some m"
      "(if type rel = ''dev'' then devDependencies m else dependencies m) = Some kvs"
    then show "updateRepository adapter e repo pn pv opts w =
           (([Notify ACTION (''Updating '' @ fullName repo)], Inr ()),
            w\<lparr> objects := (objects w)[decoded pd :=
                  (if type rel = ''dev''
                   then m\<lparr>devDependencies := Some (setProperty pn pv kvs)\<rparr>
                   else m\<lparr>dependencies := Some (setProperty pn pv kvs)\<rparr>)],
               floating := floating w @
                  [commitUpdates ACTION adapter e opts repo (''turnup/'' @ pn @ ''@'' @ pv)
                     (if type rel = ''dev''
                      then m\<lparr>devDependencies := Some (setProperty pn pv kvs)\<rparr>
                      else m\<lparr>dependencies := Some (setProperty pn pv kvs)\<rparr>)
                     (lockfile_create e)] \<rparr>)"
      by (rule updateRepository_fulfilled)
    show "map_of (setProperty pn pv kvs) pn = Some pv" by (simp add: setProperty_map_of)
    show "\<exists>rest. fst (commitUpdates ACTION adapter e opts repo (''turnup/'' @ pn @ ''@'' @ pv)
                          (if type rel = ''dev''
                           then m\<lparr>devDependencies := Some (setProperty pn pv kvs)\<rparr>
                           else m\<lparr>dependencies := Some (setProperty pn pv kvs)\<rparr>)
                          (lockfile_create e))
                    = FormatPackage (if type rel = ''dev''
                                     then m\<lparr>devDependencies := Some (setProperty pn pv kvs)\<rparr>
                                     else m\<lparr>dependencies := Some (setProperty pn pv kvs)\<rparr>) # rest"
      by (rule commitUpdates_starts)
  qed
  have only: "\<forall>evs w'. updateRepository adapter e repo pn pv opts w = ((evs, Inr ()), w') \<longrightarrow>
        (\<exists>pd rel m kvs.
            packageDefinition repo = Some pd \<and> dependencyRelationship repo = Some rel
          \<and> deref (objects w) (decoded pd) = Some m
          \<and> (if type rel = ''dev'' then devDependencies m else dependencies m) = Some kvs)"
  proof (intro allI impI)
    fix evs w'
    assume "updateRepository adapter e repo pn pv opts w = ((evs, Inr ()), w')"
    then obtain pd rel m kvs where
      "packageDefinition repo = Some pd" and "dependencyRelationship repo = Some rel"
      and "deref (objects w) (decoded pd) = Some m"
      and "(if type rel = ''dev'' then devDependencies m else dependencies m) = Some kvs"
      by (rule updateRepository_spawns)
    then show "\<exists>pd rel m kvs.
            packageDefinition repo = Some pd \<and> dependencyRelationship repo = Some rel
          \<and> deref (objects w) (decoded pd) = Some m
          \<and> (if type rel = ''dev'' then devDependencies m else dependencies m) = Some kvs"
      by blast
  qed
  have ordered: "prefix (steps (fst ?run)) ?all"
    using commitUpdates_conforms[of action adapter e opts repository branchName packageDef create]
    by (simp add: conforms_def)
  have complete: "snd ?run = Inr () \<longrightarrow> steps (fst ?run) = ?all"
    using commitUpdates_conforms[of action adapter e opts repository branchName packageDef create]
    by (auto simp: conforms_def)
  have failure: "\<forall>err. snd ?run = Inl err \<longrightarrow> (\<exists>ev. (ev, Inl err) \<in> set ?plan)"
    using commitUpdates_failure[of action adapter e opts repository branchName packageDef create]
    by blast
  have starts: "\<exists>rest. fst ?run = FormatPackage packageDef # rest"
    by (rule commitUpdates_starts)
  have without: "\<forall>f. formatPackage e packageDef = Inr f \<and> noLockfile opts \<longrightarrow>
        (\<exists>rest. fst ?run = [FormatPackage packageDef, Notify action ''Creating branch.'',
                             CreateBranch repository branchName] @ rest)"
    using commitUpdates_without_lockfile[of e packageDef _ opts action adapter repository branchName create]
    by blast
  have fetches: "\<forall>f. formatPackage e packageDef = Inr f \<and> \<not> noLockfile opts \<longrightarrow>
        (\<exists>rest. fst ?run = [FormatPackage packageDef, Notify action ''Generating lockfile.'',
                             FetchLockfileDefinition repository] @ rest)"
    using commitUpdates_with_lockfile[of e packageDef _ opts action adapter repository branchName create]
    by blast
  have noFetch: "FetchLockfile \<in> set (steps (fst ?run)) \<longrightarrow> \<not> noLockfile opts"
    using commitUpdates_steps_subset[of action adapter e opts repository branchName packageDef create]
    by (auto simp: pipelineSteps_def split: if_splits)
  have noPull: "PullRequest \<in> set (steps (fst ?run)) \<longrightarrow> \<not> noPullRequest opts"
    using commitUpdates_steps_subset[of action adapter e opts repository branchName packageDef create]
    by (auto simp: pipelineSteps_def split: if_splits)
  have listed:
    "FetchLockfile \<in> set (pipelineSteps opts remote) \<longleftrightarrow> \<not> noLockfile opts"
    "GenerateLock \<in> set (pipelineSteps opts remote) \<longleftrightarrow> \<not> noLockfile opts \<and> remote"
    "PullRequest \<in> set (pipelineSteps opts remote) \<longleftrightarrow> \<not> noPullRequest opts"
    "Format \<in> set (pipelineSteps opts remote)"
    "Branch \<in> set (pipelineSteps opts remote)"
    "Commit \<in> set (pipelineSteps opts remote)"
    by (auto simp: pipelineSteps_def)
  show ?thesis
    by (intro conjI)
       (fact exact, fact planned, fact progress, fact mutation, fact only, fact ordered,
        fact complete, fact failure, fact starts, fact without, fact fetches, fact noFetch,
        fact noPull, fact listed(1), fact listed(2), fact listed(3), fact listed(4),
        fact listed(5), fact listed(6))
qed

theorem publish_pipeline_witness:
  "commitUpdates ACTION (GitHub (demoApi [] []) demoParse npmLockfiles) demoEnv quietOptions
      classifiedA ''turnup/lodash@4.17.21'' upgradedA (lockfile_create demoEnv)
     = ([FormatPackage upgradedA,
         Notify ACTION ''Creating branch.'',
         CreateBranch classifiedA ''turnup/lodash@4.17.21'',
         Notify ACTION ''Creating commit.'',
         CommitPackageDefinition classifiedA ''turnup/lodash@4.17.21'' ''lodash@4.17.21'' None
           ''[turnup] Auto update of prod dependency lodash@4.17.21''],
        Inr ())
   \<and> steps (fst (commitUpdates ACTION (GitHub (demoApi [] []) demoParse npmLockfiles) demoEnv
                    quietOptions classifiedA ''turnup/lodash@4.17.21'' upgradedA (lockfile_create demoEnv)))
       = [Format, Branch, Commit]
   \<and> snd (commitUpdates ACTION (GitHub (demoApi [] []) demoParse npmLockfiles) demoEnv demoOptions
          classifiedA ''turnup/lodash@4.17.21'' upgradedA (lockfile_create demoEnv)) = Inr ()
   \<and> steps (fst (commitUpdates ACTION (GitHub (demoApi [] []) demoParse npmLockfiles) demoEnv
                    demoOptions classifiedA ''turnup/lodash@4.17.21'' upgradedA (lockfile_create demoEnv)))
       = [Format, FetchLockfile, GenerateLock, Branch, Commit, PullRequest]
   \<and> updateRepository (GitHub (demoApi [] []) demoParse npmLockfiles) demoEnv classifiedA
         ''lodash'' ''4.17.21'' demoOptions scenarioWorld
       = (([Notify ACTION ''Updating acme/a''], Inr ()),
          \<lparr> objects = [upgradedA, scenarioStore ! 1],
            floating = [commitUpdates ACTION (GitHub (demoApi [] []) demoParse npmLockfiles) demoEnv
                          demoOptions classifiedA ''turnup/lodash@4.17.21'' upgradedA
                          (lockfile_create demoEnv)] \<rparr>)
   \<and> updateRepository (GitHub (demoApi [] []) demoParse npmLockfiles) demoEnv classifiedDevA
         ''mocha'' ''5.2.0'' quietOptions scenarioWorld
       = (([Notify ACTION ''Updating acme/a''], Inr ()),
          \<lparr> objects = [upgradedDevA, scenarioStore ! 1],
            floating = [commitUpdates ACTION (GitHub (demoApi [] []) demoParse npmLockfiles) demoEnv
                          quietOptions classifiedDevA ''turnup/mocha@5.2.0'' upgradedDevA
                          (lockfile_create demoEnv)] \<rparr>)"
proof -
  let ?G = "GitHub (demoApi [] []) demoParse npmLockfiles"
  let ?quiet = "commitUpdates ACTION ?G demoEnv quietOptions classifiedA ''turnup/lodash@4.17.21''
                  upgradedA (lockfile_create demoEnv)"
  let ?full = "commitUpdates ACTION ?G demoEnv demoOptions classifiedA ''turnup/lodash@4.17.21''
                 upgradedA (lockfile_create demoEnv)"
  note quiet = publish_pipeline_step_order[of ACTION ?G demoEnv quietOptions classifiedA
      "''turnup/lodash@4.17.21''" upgradedA "lockfile_create demoEnv" classifiedDevA scenarioWorld
      "''mocha''" "''5.2.0''" True]
  note full = publish_pipeline_step_order[of ACTION ?G demoEnv demoOptions classifiedA
      "''turnup/lodash@4.17.21''" upgradedA "lockfile_create demoEnv" classifiedA scenarioWorld
      "''lodash''" "''4.17.21''" True]
  have quietPlan: "runPlan (pipelinePlan ACTION ?G demoEnv quietOptions classifiedA
                     ''turnup/lodash@4.17.21'' upgradedA (lockfile_create demoEnv))
     = ([FormatPackage upgradedA,
         Notify ACTION ''Creating branch.'',
         CreateBranch classifiedA ''turnup/lodash@4.17.21'',
         Notify ACTION ''Creating commit.'',
         CommitPackageDefinition classifiedA ''turnup/lodash@4.17.21'' ''lodash@4.17.21'' None
           ''[turnup] Auto update of prod dependency lodash@4.17.21''],
        Inr ())"
    by code_simp
  have 1: "?quiet = ([FormatPackage upgradedA,
         Notify ACTION ''Creating branch.'',
         CreateBranch classifiedA ''turnup/lodash@4.17.21'',
         Notify ACTION ''Creating commit.'',
         CommitPackageDefinition classifiedA ''turnup/lodash@4.17.21'' ''lodash@4.17.21'' None
           ''[turnup] Auto update of prod dependency lodash@4.17.21''],
        Inr ())"
    using quiet[THEN conjunct1] by (simp only: quietPlan)
  have quietAnswers: "list_all (\<lambda>entry. snd entry = Inr ())
      (pipelinePlan ACTION ?G demoEnv quietOptions classifiedA ''turnup/lodash@4.17.21'' upgradedA
         (lockfile_create demoEnv))"
    by code_simp
  have quietSteps: "pipelineSteps quietOptions (hasRemoteLockfile ?G classifiedA)
      = [Format, Branch, Commit]"
    by code_simp
  from quiet[THEN conjunct2, THEN conjunct2, THEN conjunct1, rule_format, OF quietAnswers]
  have 2: "steps (fst ?quiet) = [Format, Branch, Commit]"
    by (simp only: quietSteps)
  have fullAnswers: "list_all (\<lambda>entry. snd entry = Inr ())
      (pipelinePlan ACTION ?G demoEnv demoOptions classifiedA ''turnup/lodash@4.17.21'' upgradedA
         (lockfile_create demoEnv))"
    by code_simp
  have fullSteps: "pipelineSteps demoOptions (hasRemoteLockfile ?G classifiedA)
      = [Format, FetchLockfile, GenerateLock, Branch, Commit, PullRequest]"
    by code_simp
  from full[THEN conjunct2, THEN conjunct2, THEN conjunct1, rule_format, OF fullAnswers]
  have 3: "snd ?full = Inr ()"
    and 4: "steps (fst ?full) = [Format, FetchLockfile, GenerateLock, Branch, Commit, PullRequest]"
    by (simp_all only: fullSteps)
  have prod: "packageDefinition classifiedA = Some \<lparr> decoded = 0, sha = ''blob-acme/a'' \<rparr>
      \<and> dependencyRelationship classifiedA = Some lodashUpgrade
      \<and> deref (objects scenarioWorld) (decoded \<lparr> decoded = 0, sha = ''blob-acme/a'' \<rparr>)
          = Some (scenarioStore ! 0)
      \<and> (if type lodashUpgrade = ''dev'' then devDependencies (scenarioStore ! 0)
          else dependencies (scenarioStore ! 0)) = Some [(''lodash'', ''4.17.0'')]"
    by (simp add: classifiedA_def scenarioA_def scenarioWorld_def deref_def scenarioStore_def
          lodashUpgrade_def)
  from full[THEN conjunct2, THEN conjunct2, THEN conjunct2, THEN conjunct1, rule_format, OF prod,
            THEN conjunct1]
  have 5: "updateRepository ?G demoEnv classifiedA ''lodash'' ''4.17.21'' demoOptions scenarioWorld
       = (([Notify ACTION ''Updating acme/a''], Inr ()),
          \<lparr> objects = [upgradedA, scenarioStore ! 1],
            floating = [?full] \<rparr>)"
    by (simp add: classifiedA_def scenarioA_def scenarioWorld_def scenarioStore_def
          lodashUpgrade_def upgradedA_def setProperty_def createRepositoryEntity_def demoRaw_def)
  have dev: "packageDefinition classifiedDevA = Some \<lparr> decoded = 0, sha = ''blob-acme/a'' \<rparr>
      \<and> dependencyRelationship classifiedDevA = Some mochaUpgrade
      \<and> deref (objects scenarioWorld) (decoded \<lparr> decoded = 0, sha = ''blob-acme/a'' \<rparr>)
          = Some (scenarioStore ! 0)
      \<and> (if type mochaUpgrade = ''dev'' then devDependencies (scenarioStore ! 0)
          else dependencies (scenarioStore ! 0)) = Some [(''mocha'', ''5.0.0'')]"
    by (simp add: classifiedDevA_def scenarioA_def scenarioWorld_def deref_def scenarioStore_def
          mochaUpgrade_def)
  from quiet[THEN conjunct2, THEN conjunct2, THEN conjunct2, THEN conjunct1, rule_format, OF dev,
             THEN conjunct1]
  have 6: "updateRepository ?G demoEnv classifiedDevA ''mocha'' ''5.2.0'' quietOptions scenarioWorld
       = (([Notify ACTION ''Updating acme/a''], Inr ()),
          \<lparr> objects = [upgradedDevA, scenarioStore ! 1],
            floating = [commitUpdates ACTION ?G demoEnv quietOptions classifiedDevA
                          ''turnup/mocha@5.2.0'' upgradedDevA (lockfile_create demoEnv)] \<rparr>)"
    by (simp add: classifiedDevA_def scenarioA_def scenarioWorld_def scenarioStore_def
          mochaUpgrade_def upgradedDevA_def setProperty_def createRepositoryEntity_def demoRaw_def)
  from 1 2 3 4 5 6 show ?thesis by (intro conjI)
qed

text \<open>
  C9.  With lockfile regeneration enabled and a formatted manifest: the pipeline asks the
  adapter's \<open>fetchLockfileDefinition\<close> for the repository.  When the answer is \<open>undefined\<close>
  the next things done are the branch notice and the branch creation for the unchanged entity,
  the generator is never invoked, and any commit carries no lockfile.  When the answer is a
  lockfile entity, the generator is invoked next with the formatted manifest, the entity's
  package manager and the registry option, and once it has answered the branch is created
  and any commit is made for the repository with the entity attached and with the generated
  lockfile.
\<close>

theorem lockfile_regeneration:
  assumes "\<not> noLockfile opts" and "formatPackage e packageDef = Inr formatted"
  shows "(fetchLockfileDefinition adapter repository = Inr None \<longrightarrow>
           (\<exists>rest. fst (commitUpdates action adapter e opts repository branchName packageDef create) =
              [FormatPackage packageDef, Notify action ''Generating lockfile.'',
               FetchLockfileDefinition repository,
               Notify action ''Creating branch.'', CreateBranch repository branchName] @ rest
              \<and> (\<forall>f pm reg. GenerateLockfile f pm reg \<notin> set rest)
              \<and> (\<forall>r b f l msg. CommitPackageDefinition r b f l msg \<in> set rest
                    \<longrightarrow> r = repository \<and> f = formatted \<and> l = None)))
       \<and> (\<forall>lock. fetchLockfileDefinition adapter repository = Inr (Some lock) \<longrightarrow>
           (\<exists>rest. fst (commitUpdates action adapter e opts repository branchName packageDef create) =
              [FormatPackage packageDef, Notify action ''Generating lockfile.'',
               FetchLockfileDefinition repository,
               GenerateLockfile formatted (packageManager lock) (registry opts)] @ rest
              \<and> (\<forall>updated. create formatted (packageManager lock) (registry opts) = Inr updated \<longrightarrow>
                    (\<exists>rest'. rest = [Notify action ''Creating branch.'',
                                      CreateBranch (repository\<lparr>lockfileEntity := Some lock\<rparr>) branchName] @ rest'
                       \<and> (\<forall>r b f l msg. CommitPackageDefinition r b f l msg \<in> set rest'
                             \<longrightarrow> r = repository\<lparr>lockfileEntity := Some lock\<rparr> \<and> f = formatted
                                 \<and> l = Some updated)))))"
  using assms
  by (auto simp: commitUpdates_def fst_await snd_await perform_def resolve_def notify_def throwing_def
        split: sum.splits)

theorem lockfile_regeneration_witness:
  "\<not> noLockfile demoOptions
   \<and> formatPackage demoEnv upgradedA = Inr ''lodash@4.17.21''
   \<and> fetchLockfileDefinition (GitHub (demoApi [] []) demoParse npmLockfiles) classifiedA
       = Inr (Some \<lparr> packageManager = ''npm'', lockfileContent = ''{}'' \<rparr>)
   \<and> lockfile_create demoEnv ''lodash@4.17.21'' ''npm'' None = Inr ''npm:lodash@4.17.21''
   \<and> (\<exists>rest'. fst (commitUpdates ACTION (GitHub (demoApi [] []) demoParse npmLockfiles) demoEnv
                     demoOptions classifiedA ''turnup/lodash@4.17.21'' upgradedA (lockfile_create demoEnv)) =
          [FormatPackage upgradedA, Notify ACTION ''Generating lockfile.'',
           FetchLockfileDefinition classifiedA,
           GenerateLockfile ''lodash@4.17.21'' ''npm'' None,
           Notify ACTION ''Creating branch.'',
           CreateBranch (classifiedA\<lparr>lockfileEntity :=
                           Some \<lparr> packageManager = ''npm'', lockfileContent = ''{}'' \<rparr>\<rparr>)
             ''turnup/lodash@4.17.21''] @ rest')"
proof -
  let ?G = "GitHub (demoApi [] []) demoParse npmLockfiles"
  let ?lock = "\<lparr> packageManager = ''npm'', lockfileContent = ''{}'' \<rparr>"
  have 1: "\<not> noLockfile demoOptions" by (simp add: demoOptions_def)
  have 2: "formatPackage demoEnv upgradedA = Inr ''lodash@4.17.21''"
    by (simp add: demoEnv_def upgradedA_def)
  have 3: "fetchLockfileDefinition ?G classifiedA = Inr (Some ?lock)"
    by (simp add: GitHub_def npmLockfiles_def)
  have 4: "lockfile_create demoEnv ''lodash@4.17.21'' (packageManager ?lock) (registry demoOptions)
             = Inr ''npm:lodash@4.17.21''"
    by (simp add: demoEnv_def demoOptions_def)
  note inst = lockfile_regeneration[OF 1 2, of ?G classifiedA ACTION "''turnup/lodash@4.17.21''"
      "lockfile_create demoEnv"]
  from inst[THEN conjunct2, rule_format, OF 3] obtain rest where
    rest: "fst (commitUpdates ACTION ?G demoEnv demoOptions classifiedA
                  ''turnup/lodash@4.17.21'' upgradedA (lockfile_create demoEnv)) =
          [FormatPackage upgradedA, Notify ACTION ''Generating lockfile.'',
           FetchLockfileDefinition classifiedA,
           GenerateLockfile ''lodash@4.17.21'' (packageManager ?lock) (registry demoOptions)] @ rest"
    and after: "\<forall>updated. lockfile_create demoEnv ''lodash@4.17.21'' (packageManager ?lock)
                    (registry demoOptions) = Inr updated \<longrightarrow>
          (\<exists>rest'. rest = [Notify ACTION ''Creating branch.'',
                            CreateBranch (classifiedA\<lparr>lockfileEntity := Some ?lock\<rparr>)
                              ''turnup/lodash@4.17.21''] @ rest'
             \<and> (\<forall>r b f l msg. CommitPackageDefinition r b f l msg \<in> set rest'
                   \<longrightarrow> r = classifiedA\<lparr>lockfileEntity := Some ?lock\<rparr> \<and> f = ''lodash@4.17.21''
                       \<and> l = Some updated))"
    by auto
  from after[rule_format, OF 4] obtain rest' where
    "rest = [Notify ACTION ''Creating branch.'',
             CreateBranch (classifiedA\<lparr>lockfileEntity := Some ?lock\<rparr>) ''turnup/lodash@4.17.21''] @ rest'"
    by blast
  with rest
  have "\<exists>rest'. fst (commitUpdates ACTION ?G demoEnv demoOptions classifiedA
                      ''turnup/lodash@4.17.21'' upgradedA (lockfile_create demoEnv)) =
          [FormatPackage upgradedA, Notify ACTION ''Generating lockfile.'',
           FetchLockfileDefinition classifiedA,
           GenerateLockfile ''lodash@4.17.21'' (packageManager ?lock) (registry demoOptions)]
          @ [Notify ACTION ''Creating branch.'',
             CreateBranch (classifiedA\<lparr>lockfileEntity := Some ?lock\<rparr>) ''turnup/lodash@4.17.21''] @ rest'"
    by blast
  then show ?thesis using 1 2 3 4 by (simp add: demoOptions_def)
qed

section \<open>The manifest mutation and the entity it was handed\<close>

lemma deref_prefix:
  "prefix h h' \<Longrightarrow> r < length h \<Longrightarrow> deref h' r = deref h r"
  by (auto simp: prefix_def deref_def nth_append)

lemma observed_prefix:
  assumes "prefix h h'"
      and "case packageDefinition x of None \<Rightarrow> True | Some pd \<Rightarrow> decoded pd < length h"
  shows "observed h' x = observed h x"
  using assms by (auto simp: observed_def deref_prefix split: option.splits)

lemma getPackageJson_store:
  assumes "GitHub_getPackageJson a parse r h = (p, h')"
  shows "prefix h h' \<and> (\<forall>pd. snd p = Inr pd \<longrightarrow> length h \<le> decoded pd \<and> decoded pd < length h')"
  using assms
  by (auto simp: GitHub_getPackageJson_def alloc_def split: sum.splits)

lemma fetchPackageDefinition_store:
  assumes "GitHub_fetchPackageDefinition a parse r h = (p, h')"
  shows "prefix h h'
         \<and> (\<forall>r'. snd p = Inr r' \<longrightarrow>
               r' = r \<or> (\<exists>pd. r' = r\<lparr>packageDefinition := Some pd\<rparr>
                           \<and> length h \<le> decoded pd \<and> decoded pd < length h'))"
proof -
  obtain q h1 where got: "GitHub_getPackageJson a parse r h = (q, h1)"
    by (cases "GitHub_getPackageJson a parse r h")
  from getPackageJson_store[OF got] assms got show ?thesis
    by (cases q) (auto simp: GitHub_fetchPackageDefinition_def split: sum.splits if_splits)
qed

lemma fetchPackageDefinitions_store:
  "mapAll (GitHub_fetchPackageDefinition a parse) rs h = ((evs, res), h') \<Longrightarrow>
     prefix h h'
     \<and> (\<forall>rs'. res = Inr rs' \<longrightarrow>
           list_all2 (\<lambda>r r'. r' = r \<or> (\<exists>pd. r' = r\<lparr>packageDefinition := Some pd\<rparr>
                                        \<and> length h \<le> decoded pd \<and> decoded pd < length h'))
             rs rs')"
proof (induction rs arbitrary: h evs res h')
  case Nil
  then show ?case by auto
next
  case (Cons r rs)
  obtain p h1 where first: "GitHub_fetchPackageDefinition a parse r h = (p, h1)"
    by (cases "GitHub_fetchPackageDefinition a parse r h")
  obtain evs2 res2 h2 where rest: "mapAll (GitHub_fetchPackageDefinition a parse) rs h1 = ((evs2, res2), h2)"
    by (cases "mapAll (GitHub_fetchPackageDefinition a parse) rs h1") auto
  from Cons.prems first rest have h': "h' = h2"
    and res: "res = (case snd p of
                       Inl err \<Rightarrow> Inl err
                     | Inr y \<Rightarrow> (case res2 of Inl err \<Rightarrow> Inl err | Inr ys \<Rightarrow> Inr (y # ys)))"
    by auto
  note one = fetchPackageDefinition_store[OF first]
  note more = Cons.IH[OF rest]
  from one more have grow: "prefix h h1" "prefix h1 h2" by auto
  then have sizes: "length h \<le> length h1" "length h1 \<le> length h2"
    by (auto dest: prefix_length_le)
  have "prefix h h'" using grow h' by (auto intro: prefix_order.trans)
  moreover have "\<forall>rs'. res = Inr rs' \<longrightarrow>
           list_all2 (\<lambda>r r'. r' = r \<or> (\<exists>pd. r' = r\<lparr>packageDefinition := Some pd\<rparr>
                                        \<and> length h \<le> decoded pd \<and> decoded pd < length h'))
             (r # rs) rs'"
  proof (intro allI impI)
    fix rs' assume "res = Inr rs'"
    with res obtain y ys where y: "snd p = Inr y" "res2 = Inr ys" "rs' = y # ys"
      by (auto split: sum.splits)
    from one y(1) sizes h'
    have "y = r \<or> (\<exists>pd. y = r\<lparr>packageDefinition := Some pd\<rparr>
                      \<and> length h \<le> decoded pd \<and> decoded pd < length h')"
      by auto
    moreover from more y(2)
    have "list_all2 (\<lambda>r r'. r' = r \<or> (\<exists>pd. r' = r\<lparr>packageDefinition := Some pd\<rparr>
                                        \<and> length h1 \<le> decoded pd \<and> decoded pd < length h2))
             rs ys"
      by simp
    then have "list_all2 (\<lambda>r r'. r' = r \<or> (\<exists>pd. r' = r\<lparr>packageDefinition := Some pd\<rparr>
                                        \<and> length h \<le> decoded pd \<and> decoded pd < length h'))
             rs ys"
      using sizes h' by (auto elim!: list_all2_mono)
    ultimately show "list_all2 (\<lambda>r r'. r' = r \<or> (\<exists>pd. r' = r\<lparr>packageDefinition := Some pd\<rparr>
                                        \<and> length h \<le> decoded pd \<and> decoded pd < length h'))
             (r # rs) rs'"
      using y(3) by simp
  qed
  ultimately show ?case by blast
qed

lemma commitUpdates_attaches_lockfile:
  assumes "\<not> noLockfile opts" and "formatPackage e packageDef = Inr f"
      and "fetchLockfileDefinition adapter repo = Inr (Some lock)"
      and "create f (packageManager lock) (registry opts) = Inr generated"
  shows "\<exists>rest. fst (commitUpdates action adapter e opts repo branchName packageDef create) =
            [FormatPackage packageDef, Notify action ''Generating lockfile.'',
             FetchLockfileDefinition repo,
             GenerateLockfile f (packageManager lock) (registry opts),
             Notify action ''Creating branch.'',
             CreateBranch (repo\<lparr>lockfileEntity := Some lock\<rparr>) branchName] @ rest"
  using assms
  by (simp add: commitUpdates_def fst_await snd_await perform_def notify_def resolve_def)

lemma updateRepositoryAll_store:
  "updateRepositoryAll adapter e repo opts w = (p, w') \<Longrightarrow> objects w' = objects w"
  by (auto simp: updateRepositoryAll_def Let_def split: option.splits)

text \<open>
  The claim C3 as stated, refuted: after \<open>updateRepository\<close> has run on repository A of the
  scenario, the entity it received shows a manifest with \<open>lodash\<close> at \<open>4.17.21\<close>, while it
  showed \<open>4.17.0\<close> before.
\<close>

theorem updateRepository_changes_received_entity:
  "\<not> (\<forall>adapter e repo pn pv opts w p w'.
         updateRepository adapter e repo pn pv opts w = (p, w')
           \<longrightarrow> observed (objects w') repo = observed (objects w) repo)"
proof
  let ?G = "GitHub (demoApi [] []) demoParse noLockfiles"
  let ?r = "updateRepository ?G demoEnv classifiedA ''lodash'' ''4.17.21'' demoOptions scenarioWorld"
  assume "\<forall>adapter e repo pn pv opts w p w'.
         updateRepository adapter e repo pn pv opts w = (p, w')
           \<longrightarrow> observed (objects w') repo = observed (objects w) repo"
  moreover have "?r = (fst ?r, snd ?r)" by simp
  ultimately have "observed (objects (snd ?r)) classifiedA = observed (objects scenarioWorld) classifiedA"
    by blast
  moreover have "snd (observed (objects (snd ?r)) classifiedA) = Some upgradedA" by code_simp
  moreover have "snd (observed (objects scenarioWorld) classifiedA) \<noteq> Some upgradedA" by code_simp
  ultimately show False by simp
qed

text \<open>
  C3, amended.  Every state transition of a repository entity produces a new entity value,
  and no component changes what a previously handed-out entity shows, except the manifest
  mutation of the single-package flow.

  The exception, \<open>updateRepository\<close>: given an entity with a decoded manifest in the store, a
  dependency relationship, and the dependency map its type names (\<open>devDependencies\<close> for
  \<open>dev\<close>, \<open>dependencies\<close> for any other type), it is fulfilled after its notice and has
  written the target version into that manifest object, in place.  The entity's own fields
  are as they were; the manifest the entity shows, and with it every entity that refers to
  the same object, is the former one with that one map changed: the package now maps to the
  target version, every other key maps to what it did, and a package that was listed keeps its
  place among the keys.  The store has the same size and every other object of it is
  unchanged.  It is fulfilled in no other case, and when it throws it has changed nothing.

  The rule, for the other components that run with the store: \<open>updateRepositoryAll\<close> leaves
  every object as it is; \<open>fetchPackageDefinitions\<close> only adds objects to the store, so every
  entity whose manifest was in the store shows what it showed, and each entity it returns is
  the one it received or that one with a package definition attached whose manifest is one of
  the added objects.  A pipeline that has fetched a lockfile entity goes on with a new entity
  value: the fetch was made for the entity it received, the branch is created for that entity
  with the lockfile entity attached.
\<close>

theorem updateRepository_writes_manifest_in_place:
  "(\<forall>pd rel m kvs.
       packageDefinition repo = Some pd \<and> dependencyRelationship repo = Some rel
     \<and> deref (objects w) (decoded pd) = Some m
     \<and> (if type rel = ''dev'' then devDependencies m else dependencies m) = Some kvs \<longrightarrow>
       (\<exists>w'. updateRepository adapter e repo pn pv opts w
                = (([Notify ACTION (''Updating '' @ fullName repo)], Inr ()), w')
          \<and> observed (objects w) repo = (repo, Some m)
          \<and> observed (objects w') repo =
              (repo, Some (if type rel = ''dev''
                           then m\<lparr>devDependencies := Some (setProperty pn pv kvs)\<rparr>
                           else m\<lparr>dependencies := Some (setProperty pn pv kvs)\<rparr>))
          \<and> (\<forall>other. packageDefinition other = Some pd \<longrightarrow>
                snd (observed (objects w') other) = snd (observed (objects w') repo))
          \<and> map_of (setProperty pn pv kvs) = (map_of kvs)(pn \<mapsto> pv)
          \<and> (\<forall>old. map_of kvs pn = Some old \<longrightarrow> map fst (setProperty pn pv kvs) = map fst kvs)
          \<and> length (objects w') = length (objects w)
          \<and> (\<forall>r. r \<noteq> decoded pd \<longrightarrow> deref (objects w') r = deref (objects w) r)))
   \<and> (\<forall>evs w'. updateRepository adapter e repo pn pv opts w = ((evs, Inr ()), w') \<longrightarrow>
        (\<exists>pd rel m kvs.
            packageDefinition repo = Some pd \<and> dependencyRelationship repo = Some rel
          \<and> deref (objects w) (decoded pd) = Some m
          \<and> (if type rel = ''dev'' then devDependencies m else dependencies m) = Some kvs))
   \<and> (\<forall>evs err w'. updateRepository adapter e repo pn pv opts w = ((evs, Inl err), w') \<longrightarrow> w' = w)
   \<and> (\<forall>p w'. updateRepositoryAll adapter e repo opts w = (p, w') \<longrightarrow> objects w' = objects w)
   \<and> (\<forall>p h'. GitHub_fetchPackageDefinitions a parse rs h = (p, h') \<longrightarrow>
         prefix h h'
       \<and> (\<forall>x. (case packageDefinition x of None \<Rightarrow> True | Some pd \<Rightarrow> decoded pd < length h)
               \<longrightarrow> observed h' x = observed h x)
       \<and> (\<forall>rs'. snd p = Inr rs' \<longrightarrow>
             list_all2 (\<lambda>r r'. r' = r \<or> (\<exists>pd. r' = r\<lparr>packageDefinition := Some pd\<rparr>
                                          \<and> length h \<le> decoded pd \<and> decoded pd < length h'))
               rs rs'))
   \<and> (\<forall>f lock generated.
         \<not> noLockfile opts \<and> formatPackage e packageDef = Inr f
       \<and> fetchLockfileDefinition adapter repo = Inr (Some lock)
       \<and> create f (packageManager lock) (registry opts) = Inr generated \<longrightarrow>
         (\<exists>rest. fst (commitUpdates action adapter e opts repo branchName packageDef create) =
            [FormatPackage packageDef, Notify action ''Generating lockfile.'',
             FetchLockfileDefinition repo,
             GenerateLockfile f (packageManager lock) (registry opts),
             Notify action ''Creating branch.'',
             CreateBranch (repo\<lparr>lockfileEntity := Some lock\<rparr>) branchName] @ rest))"
proof -
  have written: "\<forall>pd rel m kvs.
       packageDefinition repo = Some pd \<and> dependencyRelationship repo = Some rel
     \<and> deref (objects w) (decoded pd) = Some m
     \<and> (if type rel = ''dev'' then devDependencies m else dependencies m) = Some kvs \<longrightarrow>
       (\<exists>w'. updateRepository adapter e repo pn pv opts w
                = (([Notify ACTION (''Updating '' @ fullName repo)], Inr ()), w')
          \<and> observed (objects w) repo = (repo, Some m)
          \<and> observed (objects w') repo =
              (repo, Some (if type rel = ''dev''
                           then m\<lparr>devDependencies := Some (setProperty pn pv kvs)\<rparr>
                           else m\<lparr>dependencies := Some (setProperty pn pv kvs)\<rparr>))
          \<and> (\<forall>other. packageDefinition other = Some pd \<longrightarrow>
                snd (observed (objects w') other) = snd (observed (objects w') repo))
          \<and> map_of (setProperty pn pv kvs) = (map_of kvs)(pn \<mapsto> pv)
          \<and> (\<forall>old. map_of kvs pn = Some old \<longrightarrow> map fst (setProperty pn pv kvs) = map fst kvs)
          \<and> length (objects w') = length (objects w)
          \<and> (\<forall>r. r \<noteq> decoded pd \<longrightarrow> deref (objects w') r = deref (objects w) r))"
  proof (intro allI impI, elim conjE)
    fix pd rel m kvs
    assume pd: "packageDefinition repo = Some pd" and rel: "dependencyRelationship repo = Some rel"
      and m: "deref (objects w) (decoded pd) = Some m"
      and kvs: "(if type rel = ''dev'' then devDependencies m else dependencies m) = Some kvs"
    let ?m' = "if type rel = ''dev''
               then m\<lparr>devDependencies := Some (setProperty pn pv kvs)\<rparr>
               else m\<lparr>dependencies := Some (setProperty pn pv kvs)\<rparr>"
    let ?w' = "w\<lparr> objects := (objects w)[decoded pd := ?m'],
                  floating := floating w @
                    [commitUpdates ACTION adapter e opts repo (''turnup/'' @ pn @ ''@'' @ pv) ?m'
                       (lockfile_create e)] \<rparr>"
    from m have inrange: "decoded pd < length (objects w)"
      by (simp add: deref_def split: if_splits)
    have 1: "updateRepository adapter e repo pn pv opts w
               = (([Notify ACTION (''Updating '' @ fullName repo)], Inr ()), ?w')"
      using pd rel m kvs by (rule updateRepository_fulfilled)
    have 2: "observed (objects w) repo = (repo, Some m)"
      using pd m by (simp add: observed_def)
    have 3: "observed (objects ?w') repo = (repo, Some ?m')"
      using pd inrange by (simp add: observed_def deref_def)
    have 4: "\<forall>other. packageDefinition other = Some pd \<longrightarrow>
                snd (observed (objects ?w') other) = snd (observed (objects ?w') repo)"
      using pd by (simp add: observed_def)
    have 5: "map_of (setProperty pn pv kvs) = (map_of kvs)(pn \<mapsto> pv)"
      by (rule setProperty_map_of)
    have 6: "\<forall>old. map_of kvs pn = Some old \<longrightarrow> map fst (setProperty pn pv kvs) = map fst kvs"
      by (simp add: setProperty_existing)
    have 7: "length (objects ?w') = length (objects w)" by simp
    have 8: "\<forall>r. r \<noteq> decoded pd \<longrightarrow> deref (objects ?w') r = deref (objects w) r"
      by (simp add: deref_def)
    from 1 2 3 4 5 6 7 8
    show "\<exists>w'. updateRepository adapter e repo pn pv opts w
                = (([Notify ACTION (''Updating '' @ fullName repo)], Inr ()), w')
          \<and> observed (objects w) repo = (repo, Some m)
          \<and> observed (objects w') repo = (repo, Some ?m')
          \<and> (\<forall>other. packageDefinition other = Some pd \<longrightarrow>
                snd (observed (objects w') other) = snd (observed (objects w') repo))
          \<and> map_of (setProperty pn pv kvs) = (map_of kvs)(pn \<mapsto> pv)
          \<and> (\<forall>old. map_of kvs pn = Some old \<longrightarrow> map fst (setProperty pn pv kvs) = map fst kvs)
          \<and> length (objects w') = length (objects w)
          \<and> (\<forall>r. r \<noteq> decoded pd \<longrightarrow> deref (objects w') r = deref (objects w) r)"
      by (intro exI[of _ ?w'] conjI)
  qed
  have only: "\<forall>evs w'. updateRepository adapter e repo pn pv opts w = ((evs, Inr ()), w') \<longrightarrow>
        (\<exists>pd rel m kvs.
            packageDefinition repo = Some pd \<and> dependencyRelationship repo = Some rel
          \<and> deref (objects w) (decoded pd) = Some m
          \<and> (if type rel = ''dev'' then devDependencies m else dependencies m) = Some kvs)"
  proof (intro allI impI)
    fix evs w'
    assume "updateRepository adapter e repo pn pv opts w = ((evs, Inr ()), w')"
    then obtain pd rel m kvs where
      "packageDefinition repo = Some pd" and "dependencyRelationship repo = Some rel"
      and "deref (objects w) (decoded pd) = Some m"
      and "(if type rel = ''dev'' then devDependencies m else dependencies m) = Some kvs"
      by (rule updateRepository_spawns)
    then show "\<exists>pd rel m kvs.
            packageDefinition repo = Some pd \<and> dependencyRelationship repo = Some rel
          \<and> deref (objects w) (decoded pd) = Some m
          \<and> (if type rel = ''dev'' then devDependencies m else dependencies m) = Some kvs"
      by blast
  qed
  have thrown: "\<forall>evs err w'. updateRepository adapter e repo pn pv opts w = ((evs, Inl err), w')
                  \<longrightarrow> w' = w"
    using updateRepository_rejected[of adapter e repo pn pv opts w] by blast
  have bulk: "\<forall>p w'. updateRepositoryAll adapter e repo opts w = (p, w') \<longrightarrow> objects w' = objects w"
    using updateRepositoryAll_store[of adapter e repo opts w] by blast
  have fetch: "\<forall>p h'. GitHub_fetchPackageDefinitions a parse rs h = (p, h') \<longrightarrow>
         prefix h h'
       \<and> (\<forall>x. (case packageDefinition x of None \<Rightarrow> True | Some pd \<Rightarrow> decoded pd < length h)
               \<longrightarrow> observed h' x = observed h x)
       \<and> (\<forall>rs'. snd p = Inr rs' \<longrightarrow>
             list_all2 (\<lambda>r r'. r' = r \<or> (\<exists>pd. r' = r\<lparr>packageDefinition := Some pd\<rparr>
                                          \<and> length h \<le> decoded pd \<and> decoded pd < length h'))
               rs rs')"
  proof (intro allI impI)
    fix p h'
    assume "GitHub_fetchPackageDefinitions a parse rs h = (p, h')"
    then have "mapAll (GitHub_fetchPackageDefinition a parse) rs h = ((fst p, snd p), h')"
      by (simp add: GitHub_fetchPackageDefinitions_def)
    from fetchPackageDefinitions_store[OF this]
    have grow: "prefix h h'"
      and fresh: "\<forall>rs'. snd p = Inr rs' \<longrightarrow>
             list_all2 (\<lambda>r r'. r' = r \<or> (\<exists>pd. r' = r\<lparr>packageDefinition := Some pd\<rparr>
                                          \<and> length h \<le> decoded pd \<and> decoded pd < length h'))
               rs rs'"
      by blast+
    from grow have "\<forall>x. (case packageDefinition x of None \<Rightarrow> True | Some pd \<Rightarrow> decoded pd < length h)
               \<longrightarrow> observed h' x = observed h x"
      by (auto intro: observed_prefix)
    with grow fresh
    show "prefix h h'
       \<and> (\<forall>x. (case packageDefinition x of None \<Rightarrow> True | Some pd \<Rightarrow> decoded pd < length h)
               \<longrightarrow> observed h' x = observed h x)
       \<and> (\<forall>rs'. snd p = Inr rs' \<longrightarrow>
             list_all2 (\<lambda>r r'. r' = r \<or> (\<exists>pd. r' = r\<lparr>packageDefinition := Some pd\<rparr>
                                          \<and> length h \<le> decoded pd \<and> decoded pd < length h'))
               rs rs')"
      by (intro conjI)
  qed
  have attach: "\<forall>f lock generated.
         \<not> noLockfile opts \<and> formatPackage e packageDef = Inr f
       \<and> fetchLockfileDefinition adapter repo = Inr (Some lock)
       \<and> create f (packageManager lock) (registry opts) = Inr generated \<longrightarrow>
         (\<exists>rest. fst (commitUpdates action adapter e opts repo branchName packageDef create) =
            [FormatPackage packageDef, Notify action ''Generating lockfile.'',
             FetchLockfileDefinition repo,
             GenerateLockfile f (packageManager lock) (registry opts),
             Notify action ''Creating branch.'',
             CreateBranch (repo\<lparr>lockfileEntity := Some lock\<rparr>) branchName] @ rest)"
    using commitUpdates_attaches_lockfile[of opts e packageDef _ adapter repo _ create _ action branchName]
    by blast
  show ?thesis
    by (intro conjI) (fact written, fact only, fact thrown, fact bulk, fact fetch, fact attach)
qed

theorem updateRepository_in_place_witness:
  "fst (updateRepository (GitHub (demoApi [] []) demoParse noLockfiles) demoEnv classifiedA
          ''lodash'' ''4.17.21'' demoOptions scenarioWorld)
     = ([Notify ACTION ''Updating acme/a''], Inr ())
   \<and> observed (objects scenarioWorld) classifiedA = (classifiedA, Some (scenarioStore ! 0))
   \<and> observed (objects (snd (updateRepository (GitHub (demoApi [] []) demoParse noLockfiles) demoEnv
                                classifiedA ''lodash'' ''4.17.21'' demoOptions scenarioWorld))) classifiedA
     = (classifiedA, Some upgradedA)
   \<and> snd (observed (objects (snd (updateRepository (GitHub (demoApi [] []) demoParse noLockfiles) demoEnv
                                     classifiedA ''lodash'' ''4.17.21'' demoOptions scenarioWorld))) scenarioA)
     = Some upgradedA
   \<and> deref (objects (snd (updateRepository (GitHub (demoApi [] []) demoParse noLockfiles) demoEnv
                            classifiedA ''lodash'' ''4.17.21'' demoOptions scenarioWorld))) 1
     = deref (objects scenarioWorld) 1
   \<and> fst (updateRepository (GitHub (demoApi [] []) demoParse noLockfiles) demoEnv classifiedDevA
            ''mocha'' ''5.2.0'' demoOptions scenarioWorld)
     = ([Notify ACTION ''Updating acme/a''], Inr ())
   \<and> observed (objects scenarioWorld) classifiedDevA = (classifiedDevA, Some (scenarioStore ! 0))
   \<and> observed (objects (snd (updateRepository (GitHub (demoApi [] []) demoParse noLockfiles) demoEnv
                                classifiedDevA ''mocha'' ''5.2.0'' demoOptions scenarioWorld))) classifiedDevA
     = (classifiedDevA, Some upgradedDevA)
   \<and> objects (snd (updateRepositoryAll (GitHub (demoApi [] []) demoParse noLockfiles) demoEnv
                     classifiedA demoOptions scenarioWorld))
     = scenarioStore
   \<and> length (snd (GitHub_fetchPackageDefinitions (demoApi [] []) demoParse
                    [createRepositoryEntity (demoRaw ''acme/c'')] scenarioStore)) = 3
   \<and> observed (snd (GitHub_fetchPackageDefinitions (demoApi [] []) demoParse
                      [createRepositoryEntity (demoRaw ''acme/c'')] scenarioStore)) scenarioA
     = observed scenarioStore scenarioA
   \<and> updateRepository (GitHub (demoApi [] []) demoParse noLockfiles) demoEnv
         (scenarioB\<lparr>dependencyRelationship := Some mochaUpgrade\<rparr>) ''mocha'' ''5.2.0'' demoOptions
         scenarioWorld
     = (([Notify ACTION ''Updating acme/b''], Inl (TypeError ''mocha'')), scenarioWorld)
   \<and> (\<exists>rest. fst (commitUpdates ACTION (GitHub (demoApi [] []) demoParse npmLockfiles) demoEnv
                    demoOptions classifiedA ''turnup/lodash@4.17.21'' upgradedA (lockfile_create demoEnv)) =
          [FormatPackage upgradedA, Notify ACTION ''Generating lockfile.'',
           FetchLockfileDefinition classifiedA,
           GenerateLockfile ''lodash@4.17.21'' ''npm'' None,
           Notify ACTION ''Creating branch.'',
           CreateBranch (classifiedA\<lparr>lockfileEntity :=
                           Some \<lparr> packageManager = ''npm'', lockfileContent = ''{}'' \<rparr>\<rparr>)
             ''turnup/lodash@4.17.21''] @ rest)"
proof -
  let ?G = "GitHub (demoApi [] []) demoParse noLockfiles"
  let ?r = "updateRepository ?G demoEnv classifiedA ''lodash'' ''4.17.21'' demoOptions scenarioWorld"
  let ?d = "updateRepository ?G demoEnv classifiedDevA ''mocha'' ''5.2.0'' demoOptions scenarioWorld"
  let ?b = "updateRepositoryAll ?G demoEnv classifiedA demoOptions scenarioWorld"
  let ?f = "GitHub_fetchPackageDefinitions (demoApi [] []) demoParse
              [createRepositoryEntity (demoRaw ''acme/c'')] scenarioStore"
  let ?pd = "\<lparr> decoded = 0, sha = ''blob-acme/a'' \<rparr>"
  let ?N = "GitHub (demoApi [] []) demoParse npmLockfiles"
  let ?t = "updateRepository ?G demoEnv (scenarioB\<lparr>dependencyRelationship := Some mochaUpgrade\<rparr>)
              ''mocha'' ''5.2.0'' demoOptions scenarioWorld"
  let ?lock = "\<lparr> packageManager = ''npm'', lockfileContent = ''{}'' \<rparr>"
  note prod = updateRepository_writes_manifest_in_place[where repo = classifiedA
      and w = scenarioWorld and adapter = ?G and e = demoEnv and pn = "''lodash''"
      and pv = "''4.17.21''" and opts = demoOptions and a = "demoApi [] []" and parse = demoParse
      and rs = "[createRepositoryEntity (demoRaw ''acme/c'')]" and h = scenarioStore
      and action = ACTION and branchName = "''turnup/lodash@4.17.21''" and packageDef = upgradedA
      and create = "lockfile_create demoEnv"]
  note dev = updateRepository_writes_manifest_in_place[where repo = classifiedDevA
      and w = scenarioWorld and adapter = ?G and e = demoEnv and pn = "''mocha''"
      and pv = "''5.2.0''" and opts = demoOptions and a = "demoApi [] []" and parse = demoParse
      and rs = "[]" and h = scenarioStore
      and action = ACTION and branchName = "''turnup/mocha@5.2.0''" and packageDef = upgradedDevA
      and create = "lockfile_create demoEnv"]
  note thrown = updateRepository_writes_manifest_in_place[where
      repo = "scenarioB\<lparr>dependencyRelationship := Some mochaUpgrade\<rparr>"
      and w = scenarioWorld and adapter = ?G and e = demoEnv and pn = "''mocha''"
      and pv = "''5.2.0''" and opts = demoOptions and a = "demoApi [] []" and parse = demoParse
      and rs = "[]" and h = scenarioStore
      and action = ACTION and branchName = "''turnup/mocha@5.2.0''" and packageDef = upgradedDevA
      and create = "lockfile_create demoEnv"]
  note attach = updateRepository_writes_manifest_in_place[where repo = classifiedA
      and w = scenarioWorld and adapter = ?N and e = demoEnv and pn = "''lodash''"
      and pv = "''4.17.21''" and opts = demoOptions and a = "demoApi [] []" and parse = demoParse
      and rs = "[]" and h = scenarioStore
      and action = ACTION and branchName = "''turnup/lodash@4.17.21''" and packageDef = upgradedA
      and create = "lockfile_create demoEnv"]
  have prodGiven: "packageDefinition classifiedA = Some ?pd
      \<and> dependencyRelationship classifiedA = Some lodashUpgrade
      \<and> deref (objects scenarioWorld) (decoded ?pd) = Some (scenarioStore ! 0)
      \<and> (if type lodashUpgrade = ''dev'' then devDependencies (scenarioStore ! 0)
          else dependencies (scenarioStore ! 0)) = Some [(''lodash'', ''4.17.0'')]"
    by (simp add: classifiedA_def scenarioA_def scenarioWorld_def deref_def scenarioStore_def
          lodashUpgrade_def)
  from prod[THEN conjunct1, rule_format, OF prodGiven] obtain w' where
    run: "?r = (([Notify ACTION (''Updating '' @ fullName classifiedA)], Inr ()), w')"
    and before: "observed (objects scenarioWorld) classifiedA = (classifiedA, Some (scenarioStore ! 0))"
    and after: "observed (objects w') classifiedA =
              (classifiedA, Some (if type lodashUpgrade = ''dev''
                   then (scenarioStore ! 0)\<lparr>devDependencies :=
                          Some (setProperty ''lodash'' ''4.17.21'' [(''lodash'', ''4.17.0'')])\<rparr>
                   else (scenarioStore ! 0)\<lparr>dependencies :=
                          Some (setProperty ''lodash'' ''4.17.21'' [(''lodash'', ''4.17.0'')])\<rparr>))"
    and shared: "\<forall>other. packageDefinition other = Some ?pd \<longrightarrow>
                snd (observed (objects w') other) = snd (observed (objects w') classifiedA)"
    and others: "\<forall>r. r \<noteq> decoded ?pd \<longrightarrow> deref (objects w') r = deref (objects scenarioWorld) r"
    by blast
  from run have w': "snd ?r = w'" by simp
  from run have 1: "fst ?r = ([Notify ACTION ''Updating acme/a''], Inr ())"
    by (simp add: classifiedA_def scenarioA_def createRepositoryEntity_def demoRaw_def)
  from after have 3: "observed (objects (snd ?r)) classifiedA = (classifiedA, Some upgradedA)"
    unfolding w' by (simp add: lodashUpgrade_def scenarioStore_def upgradedA_def setProperty_def)
  have "packageDefinition scenarioA = Some ?pd" by (simp add: scenarioA_def)
  with shared 3 have 4: "snd (observed (objects (snd ?r)) scenarioA) = Some upgradedA"
    unfolding w' by simp
  from others have 5: "deref (objects (snd ?r)) 1 = deref (objects scenarioWorld) 1"
    unfolding w' by simp
  have devGiven: "packageDefinition classifiedDevA = Some ?pd
      \<and> dependencyRelationship classifiedDevA = Some mochaUpgrade
      \<and> deref (objects scenarioWorld) (decoded ?pd) = Some (scenarioStore ! 0)
      \<and> (if type mochaUpgrade = ''dev'' then devDependencies (scenarioStore ! 0)
          else dependencies (scenarioStore ! 0)) = Some [(''mocha'', ''5.0.0'')]"
    by (simp add: classifiedDevA_def scenarioA_def scenarioWorld_def deref_def scenarioStore_def
          mochaUpgrade_def)
  from dev[THEN conjunct1, rule_format, OF devGiven] obtain v' where
    devRun: "?d = (([Notify ACTION (''Updating '' @ fullName classifiedDevA)], Inr ()), v')"
    and devBefore: "observed (objects scenarioWorld) classifiedDevA
                      = (classifiedDevA, Some (scenarioStore ! 0))"
    and devAfter: "observed (objects v') classifiedDevA =
              (classifiedDevA, Some (if type mochaUpgrade = ''dev''
                   then (scenarioStore ! 0)\<lparr>devDependencies :=
                          Some (setProperty ''mocha'' ''5.2.0'' [(''mocha'', ''5.0.0'')])\<rparr>
                   else (scenarioStore ! 0)\<lparr>dependencies :=
                          Some (setProperty ''mocha'' ''5.2.0'' [(''mocha'', ''5.0.0'')])\<rparr>))"
    by blast
  from devRun have v': "snd ?d = v'" by simp
  from devRun have 6: "fst ?d = ([Notify ACTION ''Updating acme/a''], Inr ())"
    by (simp add: classifiedDevA_def scenarioA_def createRepositoryEntity_def demoRaw_def)
  from devAfter have 8: "observed (objects (snd ?d)) classifiedDevA = (classifiedDevA, Some upgradedDevA)"
    unfolding v' by (simp add: mochaUpgrade_def scenarioStore_def upgradedDevA_def setProperty_def)
  have bulkRun: "?b = (fst ?b, snd ?b)" by simp
  from prod[THEN conjunct2, THEN conjunct2, THEN conjunct2, THEN conjunct1, rule_format, OF bulkRun]
  have 9: "objects (snd ?b) = scenarioStore"
    by (simp add: scenarioWorld_def)
  have fetchRun: "?f = (fst ?f, snd ?f)" by simp
  have size: "length (snd ?f) = 3" by code_simp
  have known: "case packageDefinition scenarioA of
                 None \<Rightarrow> True | Some pd \<Rightarrow> decoded pd < length scenarioStore"
    by (simp add: scenarioA_def scenarioStore_def)
  from prod[THEN conjunct2, THEN conjunct2, THEN conjunct2, THEN conjunct2, THEN conjunct1,
            rule_format, OF fetchRun, THEN conjunct2, THEN conjunct1, rule_format, OF known]
  have 11: "observed (snd ?f) scenarioA = observed scenarioStore scenarioA" .
  have failed: "fst ?t = ([Notify ACTION ''Updating acme/b''], Inl (TypeError ''mocha''))"
    by code_simp
  then have thrownRun: "?t = (([Notify ACTION ''Updating acme/b''], Inl (TypeError ''mocha'')), snd ?t)"
    by (metis prod.collapse)
  from thrown[THEN conjunct2, THEN conjunct2, THEN conjunct1, rule_format, OF thrownRun] thrownRun
  have 12: "?t = (([Notify ACTION ''Updating acme/b''], Inl (TypeError ''mocha'')), scenarioWorld)"
    by simp
  have attachGiven: "\<not> noLockfile demoOptions \<and> formatPackage demoEnv upgradedA = Inr ''lodash@4.17.21''
      \<and> fetchLockfileDefinition ?N classifiedA = Inr (Some ?lock)
      \<and> lockfile_create demoEnv ''lodash@4.17.21'' (packageManager ?lock) (registry demoOptions)
          = Inr ''npm:lodash@4.17.21''"
    by (simp add: demoOptions_def demoEnv_def upgradedA_def GitHub_def npmLockfiles_def)
  from attach[THEN conjunct2, THEN conjunct2, THEN conjunct2, THEN conjunct2, THEN conjunct2,
              rule_format, OF attachGiven]
  have 13: "\<exists>rest. fst (commitUpdates ACTION ?N demoEnv demoOptions classifiedA
                    ''turnup/lodash@4.17.21'' upgradedA (lockfile_create demoEnv)) =
          [FormatPackage upgradedA, Notify ACTION ''Generating lockfile.'',
           FetchLockfileDefinition classifiedA,
           GenerateLockfile ''lodash@4.17.21'' ''npm'' None,
           Notify ACTION ''Creating branch.'',
           CreateBranch (classifiedA\<lparr>lockfileEntity := Some ?lock\<rparr>) ''turnup/lodash@4.17.21''] @ rest"
    by (simp add: demoOptions_def)
  from 1 before 3 4 5 6 devBefore 8 9 size 11 12 13 show ?thesis by (intro conjI)
qed

section \<open>The bulk flow and the dependency relationship\<close>

lemma GitHub_commit_without_relationship:
  "dependencyRelationship repository = None \<Longrightarrow>
     GitHub_commitPackageDefinition a repository branchName formatted lockFile =
       ([], Inl (TypeError (if packageDefinition repository = None then ''sha'' else ''type'')))"
  by (simp add: GitHub_commitPackageDefinition_def reject_def split: option.splits)

lemma GitHub_pullRequest_without_relationship:
  "dependencyRelationship repository = None \<Longrightarrow>
     GitHub_createPullRequest a repository branchName = ([], Inl (TypeError ''packageName''))"
  by (simp add: GitHub_createPullRequest_def reject_def)

lemma bulk_pipeline_rejected:
  assumes "dependencyRelationship repository = None"
  shows "rejected (commitUpdates action (GitHub a parse fl) e opts repository branchName packageDef create)"
  using assms
  by (auto simp: rejected_def commitUpdates_def snd_await perform_def resolve_def notify_def
        throwing_def GitHub_def GitHub_commit_without_relationship
        split: sum.splits option.splits)

lemma bulk_pipeline_no_pull_request:
  assumes "dependencyRelationship repository = None"
  shows "PullRequest \<notin> set (steps (fst (commitUpdates action (GitHub a parse fl) e opts repository
                                          branchName packageDef create)))"
  using assms
  by (auto simp: commitUpdates_def fst_await snd_await perform_def resolve_def notify_def throwing_def
        GitHub_def GitHub_commit_without_relationship
        split: sum.splits option.splits)

lemma created_without_relationship:
  "dependencyRelationship (createRepositoryEntity r) = None"
  by (simp add: createRepositoryEntity_def)

lemma GitHub_fetchRepositories_without_relationship:
  "snd (GitHub_fetchRepositories a names) = Inr rs \<Longrightarrow> r \<in> set rs
     \<Longrightarrow> dependencyRelationship r = None"
  by (auto simp: GitHub_fetchRepositories_def snd_await resolve_def created_without_relationship
        split: sum.splits)

lemma GitHub_fetchRepositoriesByOwner_without_relationship:
  "snd (GitHub_fetchRepositoriesByOwner a ownr) = Inr rs \<Longrightarrow> r \<in> set rs
     \<Longrightarrow> dependencyRelationship r = None"
  by (auto simp: GitHub_fetchRepositoriesByOwner_def snd_await resolve_def reject_def perform_def
        created_without_relationship split: sum.splits json.splits if_splits)

lemma discovered_without_relationship:
  assumes "r \<in> set (discovered (GitHub a parse fl) opts)"
  shows "dependencyRelationship r = None"
proof -
  have byName: "r \<in> set (case snd (GitHub_fetchRepositories a ns) of Inr rs \<Rightarrow> rs | Inl err \<Rightarrow> [])
          \<Longrightarrow> dependencyRelationship r = None" for ns
    using GitHub_fetchRepositories_without_relationship[of a ns _ r]
    by (cases "snd (GitHub_fetchRepositories a ns)") auto
  have byOwner: "r \<in> set (case snd (GitHub_fetchRepositoriesByOwner a ownr) of Inr rs \<Rightarrow> rs | Inl err \<Rightarrow> [])
          \<Longrightarrow> dependencyRelationship r = None" for ownr
    using GitHub_fetchRepositoriesByOwner_without_relationship[of a ownr _ r]
    by (cases "snd (GitHub_fetchRepositoriesByOwner a ownr)") auto
  have found: "discovered (GitHub a parse fl) opts =
      (if repos opts \<noteq> []
       then (case snd (GitHub_fetchRepositories a (repos opts)) of Inr rs \<Rightarrow> rs | Inl err \<Rightarrow> [])
       else [])
      @ (case owner opts of
           None \<Rightarrow> []
         | Some ownr \<Rightarrow>
             if ownr \<noteq> []
             then (case snd (GitHub_fetchRepositoriesByOwner a ownr) of Inr rs \<Rightarrow> rs | Inl err \<Rightarrow> [])
             else [])"
    by (simp add: discovered_def GitHub_def split: option.splits)
  have guarded: "set (if b then xs else []) \<subseteq> set xs" for b and xs :: "repositoryEntity list"
    by auto
  from assms have "r \<in> set (if repos opts \<noteq> []
         then (case snd (GitHub_fetchRepositories a (repos opts)) of Inr rs \<Rightarrow> rs | Inl err \<Rightarrow> [])
         else [])
      \<or> r \<in> set (case owner opts of
           None \<Rightarrow> []
         | Some ownr \<Rightarrow>
             if ownr \<noteq> []
             then (case snd (GitHub_fetchRepositoriesByOwner a ownr) of Inr rs \<Rightarrow> rs | Inl err \<Rightarrow> [])
             else [])"
    by (simp only: found set_append Un_iff)
  then have "r \<in> set (case snd (GitHub_fetchRepositories a (repos opts)) of Inr rs \<Rightarrow> rs | Inl err \<Rightarrow> [])
      \<or> (\<exists>ownr. r \<in> set (case snd (GitHub_fetchRepositoriesByOwner a ownr) of Inr rs \<Rightarrow> rs | Inl err \<Rightarrow> []))"
  proof
    assume "r \<in> set (if repos opts \<noteq> []
         then (case snd (GitHub_fetchRepositories a (repos opts)) of Inr rs \<Rightarrow> rs | Inl err \<Rightarrow> [])
         else [])"
    then show ?thesis using guarded by blast
  next
    assume byOwn: "r \<in> set (case owner opts of
           None \<Rightarrow> []
         | Some ownr \<Rightarrow>
             if ownr \<noteq> []
             then (case snd (GitHub_fetchRepositoriesByOwner a ownr) of Inr rs \<Rightarrow> rs | Inl err \<Rightarrow> [])
             else [])"
    show ?thesis
    proof (cases "owner opts")
      case None
      from byOwn show ?thesis unfolding None by (simp only: option.case list.set empty_iff)
    next
      case (Some ownr)
      from byOwn have "r \<in> set (if ownr \<noteq> []
             then (case snd (GitHub_fetchRepositoriesByOwner a ownr) of Inr rs \<Rightarrow> rs | Inl err \<Rightarrow> [])
             else [])"
        unfolding Some by (simp only: option.case)
      then show ?thesis using guarded by blast
    qed
  qed
  then show ?thesis using byName byOwner by blast
qed

lemma gathered_without_relationship:
  assumes "fetchRepositories_action (GitHub a parse fl) opts = (evs, Inr rs)"
  shows "\<forall>r \<in> set rs. dependencyRelationship r = None"
  using set_dedupe_subset[of "discovered (GitHub a parse fl) opts"]
    discovered_without_relationship[of _ a parse fl opts]
  unfolding gathered_is_dedupe[OF assms] by blast

lemma fetchPackageDefinition_keeps_relationship:
  "GitHub_fetchPackageDefinition a parse r h = ((evs, Inr r'), h') \<Longrightarrow>
     dependencyRelationship r' = dependencyRelationship r"
  by (auto simp: GitHub_fetchPackageDefinition_def split: prod.splits sum.splits if_splits)

lemma mapAll_keeps:
  assumes "\<And>x h evs y h'. f x h = ((evs, Inr y), h') \<Longrightarrow> P x \<Longrightarrow> P y"
  shows "mapAll f xs h = ((evs, Inr ys), h') \<Longrightarrow> \<forall>x \<in> set xs. P x \<Longrightarrow> \<forall>y \<in> set ys. P y"
proof (induction xs arbitrary: h evs ys h')
  case Nil
  then show ?case by simp
next
  case (Cons x xs)
  obtain p h1 where fx: "f x h = (p, h1)" by (cases "f x h")
  obtain evs2 rs h2 where rest: "mapAll f xs h1 = ((evs2, rs), h2)"
    by (cases "mapAll f xs h1") auto
  from Cons.prems(1) fx rest obtain y ys' where y: "snd p = Inr y" "rs = Inr ys'" "ys = y # ys'"
    by (auto split: sum.splits)
  have "P y" using assms[of x h "fst p" y h1] fx y(1) Cons.prems(2) by (cases p) auto
  moreover have "\<forall>y \<in> set ys'. P y"
    using Cons.IH[of h1 evs2 ys' h2] rest y(2) Cons.prems(2) by simp
  ultimately show ?case using y(3) by simp
qed

lemma fetched_without_relationship:
  assumes "fetchPackageDefinitions (GitHub a parse fl) rs h = (Inr rs', h')"
      and "\<forall>r \<in> set rs. dependencyRelationship r = None"
  shows "\<forall>r \<in> set rs'. dependencyRelationship r = None"
proof -
  obtain evs where "mapAll (GitHub_fetchPackageDefinition a parse) rs h = ((evs, Inr rs'), h')"
    using assms(1)
    by (auto simp: GitHub_def GitHub_fetchPackageDefinitions_def split: prod.splits)
  from mapAll_keeps[where P="\<lambda>r. dependencyRelationship r = None", OF _ this assms(2)]
  show ?thesis using fetchPackageDefinition_keeps_relationship by metis
qed

lemma prompt_subset:
  "promptUserForRepos e choices = (evs, Inr rs) \<Longrightarrow> set rs \<subseteq> snd ` set choices"
  by (auto simp: promptUserForRepos_def perform_def in_set_enumerate_eq)
     (metis image_eqI nth_mem snd_conv)

lemma updateRepositoryAll_floating:
  assumes "updateRepositoryAll (GitHub a parse fl) e r opts w = (p, w')"
      and "dependencyRelationship r = None"
      and "list_all (\<lambda>q. rejected q \<and> PullRequest \<notin> set (steps (fst q))) (floating w)"
  shows "list_all (\<lambda>q. rejected q \<and> PullRequest \<notin> set (steps (fst q))) (floating w')"
  using assms(1,3) bulk_pipeline_rejected[OF assms(2), of ALL_ACTION a parse fl e opts]
    bulk_pipeline_no_pull_request[OF assms(2), of ALL_ACTION a parse fl e opts]
  by (auto simp: updateRepositoryAll_def Let_def split: option.splits)

lemma seriesTasks_floating:
  assumes "\<forall>r \<in> set rs. dependencyRelationship r = None"
  shows "seriesTasks (map (\<lambda>repository. updateRepositoryAll (GitHub a parse fl) e repository opts) rs) w = (p, w')
         \<Longrightarrow> list_all (\<lambda>q. rejected q \<and> PullRequest \<notin> set (steps (fst q))) (floating w)
         \<Longrightarrow> list_all (\<lambda>q. rejected q \<and> PullRequest \<notin> set (steps (fst q))) (floating w')"
  using assms
proof (induction rs arbitrary: w p)
  case Nil
  then show ?case by simp
next
  case (Cons r rs)
  obtain p1 w1 where 1: "updateRepositoryAll (GitHub a parse fl) e r opts w = (p1, w1)"
    by (cases "updateRepositoryAll (GitHub a parse fl) e r opts w")
  have w1: "list_all (\<lambda>q. rejected q \<and> PullRequest \<notin> set (steps (fst q))) (floating w1)"
    using updateRepositoryAll_floating[OF 1] Cons.prems by simp
  show ?case
  proof (cases "snd p1")
    case (Inl err)
    then have "w' = w1" using Cons.prems(1) 1 by (cases p1) (simp add: awaitTask_def)
    then show ?thesis using w1 by simp
  next
    case (Inr u)
    then obtain p2 where
      "seriesTasks (map (\<lambda>repository. updateRepositoryAll (GitHub a parse fl) e repository opts) rs) w1
         = (p2, w')"
      using Cons.prems(1) 1 by (cases p1) (auto simp: awaitTask_def split: prod.splits)
    from Cons.IH[OF this w1] Cons.prems(3) show ?thesis by simp
  qed
qed

lemma updateAll_floating:
  assumes run: "updateAll (GitHub a parse fl) e opts w = (p, w')"
      and rej: "list_all (\<lambda>q. rejected q \<and> PullRequest \<notin> set (steps (fst q))) (floating w)"
  shows "list_all (\<lambda>q. rejected q \<and> PullRequest \<notin> set (steps (fst q))) (floating w')"
  using run unfolding updateAll_def
proof (cases rule: awaitTask_E)
  case (stopped evs err)
  then show ?thesis using rej by (simp add: still_def)
next
  case (continued evs0 x0 w0 p0)
  let ?G = "GitHub a parse fl"
  from continued have w0: "w0 = w" by (simp add: still_def)
  from tryFatal_world[OF continued(2)] obtain p1 where
    "awaitTask (still (fetchRepositories_action ?G opts))
       (\<lambda>repositoryList.
          awaitTask (still (if repositoryList = [] then reject NoRepositoriesFoundError
                            else notify ALL_ACTION (''Found '' @ pluralizeRepo repositoryList @ ''.'')))
            (\<lambda>_. awaitTask (callFetchPackageDefinitions ?G repositoryList)
               (\<lambda>repositoryList.
                  awaitTask (if \<not> continue opts
                             then still (promptUserForRepos e (map (\<lambda>repo. (name repo, repo)) repositoryList))
                             else still (resolve repositoryList))
                    (\<lambda>repositoryList.
                       seriesTasks (map (\<lambda>repository. updateRepositoryAll ?G e repository opts)
                                      repositoryList))))) w0 = (p1, w')"
    by blast
  then show ?thesis
  proof (cases rule: awaitTask_E)
    case (stopped evs err)
    then show ?thesis using rej w0 by (simp add: still_def)
  next
    case (continued evs1 gathered w1 p2)
    then have w1: "w1 = w" and g: "fetchRepositories_action ?G opts = (evs1, Inr gathered)"
      using w0 by (simp_all add: still_def)
    have g0: "\<forall>r \<in> set gathered. dependencyRelationship r = None"
      using gathered_without_relationship[OF g] .
    from continued(2) show ?thesis
    proof (cases rule: awaitTask_E)
      case (stopped evs err)
      then show ?thesis using rej w1 by (simp add: still_def)
    next
      case (continued evs2 u w2 p3)
      then have w2: "w2 = w" using w1 by (simp add: still_def)
      from continued(2) show ?thesis
      proof (cases rule: awaitTask_E)
        case (stopped evs err)
        then show ?thesis using rej w2
          by (auto simp: callFetchPackageDefinitions_def split: prod.splits)
      next
        case (continued evs3 fetched w3 p4)
        then have f3: "fetchPackageDefinitions ?G gathered (objects w2) = (Inr fetched, objects w3)"
          and fl3: "floating w3 = floating w"
          using w2 by (auto simp: callFetchPackageDefinitions_def perform_def split: prod.splits)
        have f0: "\<forall>r \<in> set fetched. dependencyRelationship r = None"
          using fetched_without_relationship[OF f3 g0] .
        from continued(2) show ?thesis
        proof (cases rule: awaitTask_E)
          case (stopped evs err)
          then show ?thesis using rej fl3 by (auto simp: still_def split: if_splits)
        next
          case (continued evs4 selected w4 p5)
          then have w4: "w4 = w3" by (auto simp: still_def split: if_splits)
          have "set selected \<subseteq> set fetched"
            using continued(1)
              prompt_subset[of e "map (\<lambda>repo. (name repo, repo)) fetched" evs4 selected]
            by (auto simp: still_def resolve_def split: if_splits)
          then have s0: "\<forall>r \<in> set selected. dependencyRelationship r = None" using f0 by blast
          from seriesTasks_floating[OF s0 continued(2)] rej fl3 w4 show ?thesis by simp
        qed
      qed
    qed
  qed
qed

text \<open>
  C10.  For a repository without a dependency relationship, \<open>commitPackageDefinition\<close> and
  \<open>createPullRequest\<close> of the GitHub adapter throw a \<open>TypeError\<close> before any API call.  The
  bulk flow over that adapter never attaches a relationship, so every pipeline it starts is
  rejected and none of them reaches the pull request: whatever the repositories, the options
  and the operator's choice, each pipeline \<open>updateAll\<close> leaves behind has been rejected and
  has no pull-request step.
\<close>

theorem bulk_flow_never_completes_a_commit:
  "(dependencyRelationship repository = None \<longrightarrow>
      GitHub_commitPackageDefinition a repository branchName formatted lockFile =
        ([], Inl (TypeError (if packageDefinition repository = None then ''sha'' else ''type'')))
      \<and> GitHub_createPullRequest a repository branchName = ([], Inl (TypeError ''packageName'')))
   \<and> (\<forall>p w'. updateAll (GitHub a parse fl) e opts w = (p, w')
               \<and> list_all (\<lambda>q. rejected q \<and> PullRequest \<notin> set (steps (fst q))) (floating w)
         \<longrightarrow> list_all (\<lambda>q. rejected q \<and> PullRequest \<notin> set (steps (fst q))) (floating w'))"
  using updateAll_floating[of a parse fl e opts w]
  by (simp add: GitHub_commit_without_relationship GitHub_pullRequest_without_relationship)

theorem bulk_flow_witness:
  "dependencyRelationship scenarioA = None
   \<and> GitHub_commitPackageDefinition (demoApi [] []) scenarioA ''turnup/update-all'' ''{}'' None
       = ([], Inl (TypeError ''type''))
   \<and> GitHub_createPullRequest (demoApi [] []) scenarioA ''turnup/update-all''
       = ([], Inl (TypeError ''packageName''))
   \<and> snd (fst (updateAll (GitHub (demoApi [] []) demoParse noLockfiles) demoEnv demoOptions emptyWorld))
       = Inr ()
   \<and> length (floating (snd (updateAll (GitHub (demoApi [] []) demoParse noLockfiles) demoEnv
                              demoOptions emptyWorld))) = 3
   \<and> list_all (\<lambda>q. rejected q \<and> PullRequest \<notin> set (steps (fst q)))
        (floating (snd (updateAll (GitHub (demoApi [] []) demoParse noLockfiles) demoEnv
                          demoOptions emptyWorld)))"
proof -
  let ?r = "updateAll (GitHub (demoApi [] []) demoParse noLockfiles) demoEnv demoOptions emptyWorld"
  note inst = bulk_flow_never_completes_a_commit[of scenarioA "demoApi [] []" "''turnup/update-all''"
      "''{}''" None demoParse noLockfiles demoEnv demoOptions emptyWorld]
  have none: "dependencyRelationship scenarioA = None"
    by (simp add: scenarioA_def createRepositoryEntity_def)
  have pd: "packageDefinition scenarioA \<noteq> None" by (simp add: scenarioA_def)
  from inst none pd
  have ops: "GitHub_commitPackageDefinition (demoApi [] []) scenarioA ''turnup/update-all'' ''{}'' None
       = ([], Inl (TypeError ''type''))"
    "GitHub_createPullRequest (demoApi [] []) scenarioA ''turnup/update-all''
       = ([], Inl (TypeError ''packageName''))"
    by simp_all
  have "?r = (fst ?r, snd ?r)" by simp
  moreover have "list_all (\<lambda>q. rejected q \<and> PullRequest \<notin> set (steps (fst q))) (floating emptyWorld)"
    by (simp add: emptyWorld_def)
  ultimately have all: "list_all (\<lambda>q. rejected q \<and> PullRequest \<notin> set (steps (fst q))) (floating (snd ?r))"
    using inst by blast
  have "snd (fst ?r) = Inr ()" by code_simp
  moreover have "length (floating (snd ?r)) = 3" by code_simp
  ultimately show ?thesis using none ops all by simp
qed

section \<open>Failures inside a pipeline and the rest of the run\<close>

text \<open>
  C1 is not what the code does.  \<open>update\<close> runs over \<open>acme/a\<close>, \<open>acme/b\<close>, \<open>acme/c\<close> with
  \<open>continue\<close> set, and the branch lookup of \<open>acme/b\<close> fails with status 500.  The pipeline of
  \<open>acme/b\<close> is rejected with that error, yet the run goes on to \<open>acme/c\<close>, whose pipeline
  creates its branch and is fulfilled, and \<open>update\<close> ends without a fatal error:
  \<open>updateRepository\<close> does not await \<open>commitUpdates\<close>, so the series never sees the rejection.
\<close>

theorem update_runs_third_pipeline_after_second_failed:
  "snd (fst (update ''lodash@4.17.21'' (GitHub (demoApi [] ''acme/b'') demoParse noLockfiles)
               demoEnv demoOptions emptyWorld)) = Inr ()
   \<and> notices (fst (fst (update ''lodash@4.17.21'' (GitHub (demoApi [] ''acme/b'') demoParse noLockfiles)
               demoEnv demoOptions emptyWorld)))
       = [''Using adapter GitHub.'', ''Found .'', ''Found 3 repositories out of date.'',
          ''Updating 3 repositories with lodash@4.17.21'',
          ''Updating acme/a'', ''Updating acme/b'', ''Updating acme/c'']
   \<and> map snd (floating (snd (update ''lodash@4.17.21''
               (GitHub (demoApi [] ''acme/b'') demoParse noLockfiles) demoEnv demoOptions emptyWorld)))
       = [Inr (), Inl (HttpError 500 ''Server Error''), Inr ()]
   \<and> map branchesCreated (floating (snd (update ''lodash@4.17.21''
               (GitHub (demoApi [] ''acme/b'') demoParse noLockfiles) demoEnv demoOptions emptyWorld)))
       = [[(''acme/a'', ''turnup/lodash@4.17.21'')], [(''acme/b'', ''turnup/lodash@4.17.21'')],
          [(''acme/c'', ''turnup/lodash@4.17.21'')]]"
  by code_simp

section \<open>A repository without a manifest\<close>

text \<open>
  C7 is not what the code does.  For \<open>acme/b\<close>, whose \<^verbatim>\<open>package.json\<close> is answered with
  status 404: \<open>fetchPackageDefinitions\<close> of \<^verbatim>\<open>src/adapters/github/adapter.js\<close> raises the 404
  error, while the version with the owner lookup returns the entity unchanged; and with that
  version, \<open>updateAll\<close> over \<open>acme/a\<close>, \<open>acme/b\<close>, \<open>acme/c\<close> with \<open>continue\<close> set keeps
  \<open>acme/b\<close> as a candidate and ends by a fatal \<open>TypeError\<close> when it reaches it, after the one
  pipeline of \<open>acme/a\<close> and before \<open>acme/c\<close>.
\<close>

theorem missing_manifest_aborts_bulk_run:
  "adapter_js_fetchPackageDefinitions (demoApi ''acme/b'' []) demoParse
      [createRepositoryEntity (demoRaw ''acme/b'')] []
     = (([GetContents ''acme/b'' ''package.json''], Inl (HttpError 404 ''Not Found'')), [])
   \<and> GitHub_fetchPackageDefinitions (demoApi ''acme/b'' []) demoParse
      [createRepositoryEntity (demoRaw ''acme/b'')] []
     = (([GetContents ''acme/b'' ''package.json''], Inr [createRepositoryEntity (demoRaw ''acme/b'')]), [])
   \<and> snd (fst (updateAll (GitHub (demoApi ''acme/b'' []) demoParse noLockfiles) demoEnv demoOptions
                 emptyWorld))
       = Inl (TypeError ''decoded'')
   \<and> notices (fst (fst (updateAll (GitHub (demoApi ''acme/b'' []) demoParse noLockfiles) demoEnv
                           demoOptions emptyWorld)))
       = [''Using adapter GitHub.'', ''Found 3 repositories.'',
          ''Running npm update against acme/a'', ''Running npm update against acme/b'']
   \<and> map branchesCreated (floating (snd (updateAll (GitHub (demoApi ''acme/b'' []) demoParse noLockfiles)
                                           demoEnv demoOptions emptyWorld)))
       = [[(''acme/a'', ''turnup/update-all'')]]"
  by code_simp

end
